theory Spec2Isabelle
  imports Complex_Main "HOL-Library.Word"
begin

section \<open>Python values\<close>

text \<open>
  The service of \<^verbatim>\<open>main.py\<close> forwards uploaded images to a hosted inference provider
  (\<^verbatim>\<open>replicate.run\<close>) and reshapes what comes back. What comes back is parsed JSON and
  the code indexes into it without any check of its shape, so the model keeps the whole
  dynamic value: \<open>None\<close>, booleans, integers, floats, strings, lists and objects.

  A Python \<open>str\<close> is modelled as a \<open>string\<close> whose characters stand for the code points
  0..255. A float is modelled by its numeric value; the non-finite floats, which standard
  JSON cannot carry, are not modelled. A JSON object is an association list read with
  \<open>map_of\<close>.
\<close>

datatype pyval =
    PNone
  | PBool bool
  | PInt int
  | PFloat rat
  | PStr string
  | PList "pyval list"
  | PDict "(string \<times> pyval) list"

text \<open>
  The exceptions which the operations of the pipeline raise. \<open>OtherError\<close> stands for any
  further instance of Python's \<open>Exception\<close> (a network error of the provider's client, a
  failed read of the upload), with its message. \<open>BaseError\<close> stands for an instance of
  \<open>BaseException\<close> that is not an \<open>Exception\<close> (\<open>KeyboardInterrupt\<close>, \<open>SystemExit\<close>,
  \<open>asyncio.CancelledError\<close>), with its name: the provider's client, the read of the
  upload and \<^verbatim>\<open>print\<close> can all be interrupted by one.
\<close>

datatype exn =
    AttributeError
  | TypeError
  | KeyError
  | IndexError
  | UnicodeEncodeError
  | OtherError string
  | BaseError string

text \<open>\<^verbatim>\<open>isinstance(e, Exception)\<close>: what an \<^verbatim>\<open>except Exception\<close> clause catches.\<close>

fun is_exception :: "exn \<Rightarrow> bool" where
  "is_exception (BaseError name) = False"
| "is_exception AttributeError = True"
| "is_exception TypeError = True"
| "is_exception KeyError = True"
| "is_exception IndexError = True"
| "is_exception UnicodeEncodeError = True"
| "is_exception (OtherError msg) = True"

definition bind_exn :: "exn + 'a \<Rightarrow> ('a \<Rightarrow> exn + 'b) \<Rightarrow> exn + 'b" where
  "bind_exn m f = (case m of Inl e \<Rightarrow> Inl e | Inr x \<Rightarrow> f x)"

text \<open>Truth value testing, as \<^verbatim>\<open>if x\<close> and \<^verbatim>\<open>x and y\<close> do it.\<close>

fun py_truthy :: "pyval \<Rightarrow> bool" where
  "py_truthy PNone = False"
| "py_truthy (PBool b) = b"
| "py_truthy (PInt i) = (i \<noteq> 0)"
| "py_truthy (PFloat r) = (r \<noteq> 0)"
| "py_truthy (PStr s) = (s \<noteq> [])"
| "py_truthy (PList xs) = (xs \<noteq> [])"
| "py_truthy (PDict kvs) = (kvs \<noteq> [])"

text \<open>\<^verbatim>\<open>len(x)\<close>: a \<open>TypeError\<close> on a value that has no length.\<close>

fun py_len :: "pyval \<Rightarrow> exn + nat" where
  "py_len (PStr s) = Inr (length s)"
| "py_len (PList xs) = Inr (length xs)"
| "py_len (PDict kvs) = Inr (length (remdups (map fst kvs)))"
| "py_len PNone = Inl TypeError"
| "py_len (PBool b) = Inl TypeError"
| "py_len (PInt i) = Inl TypeError"
| "py_len (PFloat r) = Inl TypeError"

text \<open>
  \<^verbatim>\<open>x[0]\<close>: the first element of a list, the first character of a string (a string of
  length one), \<open>IndexError\<close> when there is none; \<open>KeyError\<close> on an object, whose keys
  are strings; \<open>TypeError\<close> on a value that cannot be subscripted.
\<close>

fun py_index0 :: "pyval \<Rightarrow> exn + pyval" where
  "py_index0 (PList []) = Inl IndexError"
| "py_index0 (PList (x # xs)) = Inr x"
| "py_index0 (PStr []) = Inl IndexError"
| "py_index0 (PStr (c # s)) = Inr (PStr [c])"
| "py_index0 (PDict kvs) = Inl KeyError"
| "py_index0 PNone = Inl TypeError"
| "py_index0 (PBool b) = Inl TypeError"
| "py_index0 (PInt i) = Inl TypeError"
| "py_index0 (PFloat r) = Inl TypeError"

text \<open>
  \<^verbatim>\<open>x['name']\<close>: the field of an object, \<open>KeyError\<close> when it is missing; \<open>TypeError\<close> on
  every other value (lists and strings want integer indices, the rest cannot be
  subscripted).
\<close>

fun py_item :: "pyval \<Rightarrow> string \<Rightarrow> exn + pyval" where
  "py_item (PDict kvs) k = (case map_of kvs k of None \<Rightarrow> Inl KeyError | Some v \<Rightarrow> Inr v)"
| "py_item (PList xs) k = Inl TypeError"
| "py_item (PStr s) k = Inl TypeError"
| "py_item PNone k = Inl TypeError"
| "py_item (PBool b) k = Inl TypeError"
| "py_item (PInt i) k = Inl TypeError"
| "py_item (PFloat r) k = Inl TypeError"

section \<open>String methods\<close>

text \<open>
  \<^verbatim>\<open>str.strip()\<close> without an argument removes leading and trailing whitespace. On the code
  points below 256 the whitespace characters are 9..13, 28..32, 133 and 160.
\<close>

definition py_isspace :: "char \<Rightarrow> bool" where
  "py_isspace c =
     (let n = (of_char c :: nat)
      in (9 \<le> n \<and> n \<le> 13) \<or> (28 \<le> n \<and> n \<le> 32) \<or> n = 133 \<or> n = 160)"

definition py_strip :: "string \<Rightarrow> string" where
  "py_strip s = rev (dropWhile py_isspace (rev (dropWhile py_isspace s)))"

text \<open>
  \<^verbatim>\<open>str.lower()\<close>: on the code points below 256 the letters A..Z and the letters 192..222
  (but not the multiplication sign 215) move up by 32; every other character stays.
\<close>

definition py_lower_char :: "char \<Rightarrow> char" where
  "py_lower_char c =
     (let n = (of_char c :: nat)
      in if (65 \<le> n \<and> n \<le> 90) \<or> (192 \<le> n \<and> n \<le> 222 \<and> n \<noteq> 215)
         then char_of (n + 32) else c)"

definition py_lower :: "string \<Rightarrow> string" where
  "py_lower s = map py_lower_char s"

text \<open>\<^verbatim>\<open>sub in s\<close> on strings: \<open>sub\<close> occurs in \<open>s\<close> as a contiguous piece.\<close>

fun py_in :: "string \<Rightarrow> string \<Rightarrow> bool" where
  "py_in sub [] = (sub = [])"
| "py_in sub (c # s) = (take (length sub) (c # s) = sub \<or> py_in sub s)"

text \<open>
  \<^verbatim>\<open>x.strip()\<close> on a dynamic value: only a string has the method, every other value of the
  model raises \<open>AttributeError\<close>.
\<close>

fun py_strip_method :: "pyval \<Rightarrow> exn + string" where
  "py_strip_method (PStr s) = Inr (py_strip s)"
| "py_strip_method PNone = Inl AttributeError"
| "py_strip_method (PBool b) = Inl AttributeError"
| "py_strip_method (PInt i) = Inl AttributeError"
| "py_strip_method (PFloat r) = Inl AttributeError"
| "py_strip_method (PList xs) = Inl AttributeError"
| "py_strip_method (PDict kvs) = Inl AttributeError"

section \<open>The external provider\<close>

text \<open>
  \<^verbatim>\<open>replicate.run(model, input={...})\<close> is the one external capability. A call is the model
  identifier with the input dictionary; the provider is a parameter of every function
  below, answering a call with a value or with an exception. The calls made are
  recorded, in order, in a list that is threaded through the code, so that "the
  capability is not invoked" is a statement about that list.
\<close>

type_synonym call = "string \<times> (string \<times> string) list"

type_synonym provider = "call \<Rightarrow> exn + pyval"

definition replicate_run :: "provider \<Rightarrow> call \<Rightarrow> call list \<Rightarrow> (exn + pyval) \<times> call list" where
  "replicate_run run c calls = (run c, calls @ [c])"

definition species_model :: string where
  "species_model =
     ''andreasjansson/blip-2:4b32258c42e9efd4288bb9910bc532a69727f9acd26aa08e175713a0a857a608''"

definition species_question :: string where
  "species_question =
     ''What type of animal is this? Options: dog, cat, rabbit, bear, iguana, bird, fish, other''"

definition species_call :: "string \<Rightarrow> call" where
  "species_call image_data =
     (species_model, [(''image'', image_data), (''question'', species_question)])"

section \<open>The console\<close>

text \<open>
  Every \<^verbatim>\<open>except Exception as e\<close> block of the source first prints a line: a Korean
  phrase followed by \<^verbatim>\<open>str(e)\<close>. The three phrases are those of line 52 ("classification
  model error"), of line 90 ("breed classification error") and of lines 135 and 189
  ("image processing error"). \<^verbatim>\<open>print\<close> can raise: \<open>UnicodeEncodeError\<close> when the standard
  output cannot encode the phrase, an \<open>OSError\<close> when it is closed. The console is a
  parameter, as the provider is: for each line, \<open>None\<close> when the \<^verbatim>\<open>print\<close> statement
  completes and \<open>Some e\<close> when it raises \<open>e\<close>.
\<close>

datatype log_line = SpeciesLine exn | BreedLine exn | ImageLine exn

type_synonym console = "log_line \<Rightarrow> exn option"

definition py_print :: "console \<Rightarrow> log_line \<Rightarrow> exn + unit" where
  "py_print con line = (case con line of None \<Rightarrow> Inr () | Some e \<Rightarrow> Inl e)"

text \<open>
  An \<^verbatim>\<open>except Exception as e\<close> block that prints a line and then yields a value. An
  exception that is not an \<open>Exception\<close> is not caught and goes on; an exception raised by
  the \<^verbatim>\<open>print\<close> leaves the block in place of the value.
\<close>

definition except_Exception :: "console \<Rightarrow> log_line \<Rightarrow> exn \<Rightarrow> 'a \<Rightarrow> exn + 'a" where
  "except_Exception con line e fallback =
     (if is_exception e
      then bind_exn (py_print con line) (\<lambda>u. Inr fallback)
      else Inl e)"

section \<open>classify_animal\<close>

text \<open>
  Lines 44 to 49: what the body of \<^verbatim>\<open>classify_animal\<close> does with the provider's output.
\<close>

definition species_label :: "pyval \<Rightarrow> exn + string" where
  "species_label output =
     bind_exn (py_strip_method output) (\<lambda>stripped.
       let result = py_lower stripped
       in if result = [] \<or> result = ''other'' \<or> py_in ''cannot'' result
             \<or> py_in ''not sure'' result \<or> py_in ''unclear'' result
          then Inr ''unclassified''
          else Inr result)"

text \<open>The \<^verbatim>\<open>try\<close> block of \<^verbatim>\<open>classify_animal\<close>: the call, then the lines above.\<close>

definition classify_animal_body ::
  "provider \<Rightarrow> string \<Rightarrow> call list \<Rightarrow> (exn + string) \<times> call list" where
  "classify_animal_body run image_data calls =
     (case replicate_run run (species_call image_data) calls of
        (out, calls') \<Rightarrow> (bind_exn out species_label, calls'))"

text \<open>
  Lines 50 to 53, \<^verbatim>\<open>except Exception as e\<close>: the error is printed and the label is
  \<open>unclassified\<close>.
\<close>

definition classify_animal ::
  "console \<Rightarrow> provider \<Rightarrow> string \<Rightarrow> call list \<Rightarrow> (exn + string) \<times> call list" where
  "classify_animal con run image_data calls =
     (case classify_animal_body run image_data calls of
        (Inl e, calls') \<Rightarrow> (except_Exception con (SpeciesLine e) e ''unclassified'', calls')
      | (Inr label, calls') \<Rightarrow> (Inr label, calls'))"

section \<open>classify_breed\<close>

definition breed_model :: string where
  "breed_model =
     ''modelsaggregation/image-classification:21ceaa9c218d3a6fd09c1c6831fc1c4a5ca3ac820cd09bdf2110b3aacf47e3ba''"

definition breed_call :: "string \<Rightarrow> string \<Rightarrow> call" where
  "breed_call model_name image_data =
     (breed_model, [(''image'', image_data), (''model_name'', model_name)])"

text \<open>The dictionary \<^verbatim>\<open>{"breed": breed, "confidence": confidence}\<close> of line 86.\<close>

record breed_info =
  bi_breed :: pyval
  bi_confidence :: pyval

text \<open>
  Lines 82 to 88: \<^verbatim>\<open>output and len(output) > 0\<close> stops at a falsy output without asking
  for its length; \<^verbatim>\<open>output[0]\<close> is evaluated once for each of the two fields.
\<close>

definition parse_breed :: "pyval \<Rightarrow> exn + breed_info option" where
  "parse_breed output =
     (if \<not> py_truthy output then Inr None
      else bind_exn (py_len output) (\<lambda>n.
        if n > 0 then
          bind_exn (py_index0 output) (\<lambda>first.
          bind_exn (py_item first ''label'') (\<lambda>breed.
          bind_exn (py_index0 output) (\<lambda>first'.
          bind_exn (py_item first' ''confidence'') (\<lambda>confidence.
            Inr (Some \<lparr>bi_breed = breed, bi_confidence = confidence\<rparr>)))))
        else Inr None))"

text \<open>
  \<^verbatim>\<open>classify_breed\<close>: the guard of line 58 returns before the \<^verbatim>\<open>try\<close>; inside it the
  sub-model is chosen by the species. Lines 89 to 91, \<^verbatim>\<open>except Exception as e\<close>: the error
  is printed and the result is \<open>None\<close>.
\<close>

definition classify_breed_body ::
  "provider \<Rightarrow> string \<Rightarrow> string \<Rightarrow> call list \<Rightarrow> (exn + breed_info option) \<times> call list" where
  "classify_breed_body run image_data animal_type calls =
     (case (if animal_type = ''dog''
            then replicate_run run (breed_call ''dog-breed-identification'' image_data) calls
            else replicate_run run (breed_call ''cat-breed-classification'' image_data) calls) of
        (out, calls') \<Rightarrow> (bind_exn out parse_breed, calls'))"

definition classify_breed ::
  "console \<Rightarrow> provider \<Rightarrow> string \<Rightarrow> string \<Rightarrow> call list
     \<Rightarrow> (exn + breed_info option) \<times> call list" where
  "classify_breed con run image_data animal_type calls =
     (if animal_type \<notin> set [''dog'', ''cat''] then (Inr None, calls)
      else case classify_breed_body run image_data animal_type calls of
             (Inl e, calls') \<Rightarrow> (except_Exception con (BreedLine e) e None, calls')
           | (Inr r, calls') \<Rightarrow> (Inr r, calls'))"

section \<open>The encoding step\<close>

text \<open>
  \<^verbatim>\<open>base64.b64encode\<close> of the standard library: three bytes become four characters of the
  standard alphabet, a last group of one or two bytes is padded with \<open>=\<close>.
\<close>

definition b64_alphabet :: string where
  "b64_alphabet = ''ABCDEFGHIJKLMNOPQRSTUVWXYZabcdefghijklmnopqrstuvwxyz0123456789+/''"

text \<open>The index is a six bit number at every use below, so \<open>mod 64\<close> changes nothing.\<close>

definition b64_char :: "nat \<Rightarrow> char" where
  "b64_char i = b64_alphabet ! (i mod 64)"

fun b64encode :: "8 word list \<Rightarrow> string" where
  "b64encode [] = []"
| "b64encode [a] =
     [b64_char (unat a div 4), b64_char ((unat a mod 4) * 16), CHR ''='', CHR ''='']"
| "b64encode [a, b] =
     [b64_char (unat a div 4), b64_char ((unat a mod 4) * 16 + unat b div 16),
      b64_char ((unat b mod 16) * 4), CHR ''='']"
| "b64encode (a # b # c # rest) =
     [b64_char (unat a div 4), b64_char ((unat a mod 4) * 16 + unat b div 16),
      b64_char ((unat b mod 16) * 4 + unat c div 64), b64_char (unat c mod 64)]
     @ b64encode rest"

text \<open>
  \<^verbatim>\<open>s.split('/')\<close>: the pieces of \<open>s\<close> between the separators, never an empty list;
  \<open>acc\<close> is the piece being read.
\<close>

fun split_acc :: "char \<Rightarrow> string \<Rightarrow> string \<Rightarrow> string list" where
  "split_acc sep acc [] = [acc]"
| "split_acc sep acc (c # s) =
     (if c = sep then acc # split_acc sep [] s else split_acc sep (acc @ [c]) s)"

definition py_split :: "char \<Rightarrow> string \<Rightarrow> string list" where
  "py_split sep s = split_acc sep [] s"

text \<open>
  An uploaded file, as the handlers use it: what \<^verbatim>\<open>await file.read()\<close> gives (the bytes, or
  an exception) and the declared content type, \<open>None\<close> when the part has no such header.
\<close>

record upload_file =
  uf_read :: "exn + 8 word list"
  uf_content_type :: "string option"

text \<open>
  Lines 101 and 102 (the same text as lines 152 and 153). \<^verbatim>\<open>.split\<close> on a missing content
  type is an \<open>AttributeError\<close>; \<^verbatim>\<open>[-1]\<close> is the last piece. The decoding of the base64
  bytes as UTF-8 cannot fail, they are ASCII.
\<close>

definition encode_image :: "8 word list \<Rightarrow> string option \<Rightarrow> exn + string" where
  "encode_image image_content content_type =
     (let encoded_image = b64encode image_content
      in case content_type of
           None \<Rightarrow> Inl AttributeError
         | Some ct \<Rightarrow>
             Inr (''data:image/'' @ last (py_split CHR ''/'' ct) @ '';base64,'' @ encoded_image))"

section \<open>Dictionaries keyed by dynamic values\<close>

text \<open>
  \<^verbatim>\<open>classified\<close> is a Python dictionary whose keys are whatever the provider sent as
  \<open>label\<close>. A dictionary keeps its entries in insertion order and finds a key by hash and
  equality: \<open>None\<close>, numbers (with \<open>True == 1 == 1.0\<close>) and strings can be keys, a list or
  an object as key is a \<open>TypeError\<close> (unhashable). \<open>py_key\<close> gives the equality class of
  a value that can be a key.
\<close>

datatype pykey = KNone | KNum rat | KStr string

fun py_key :: "pyval \<Rightarrow> pykey option" where
  "py_key PNone = Some KNone"
| "py_key (PBool b) = Some (KNum (if b then 1 else 0))"
| "py_key (PInt i) = Some (KNum (of_int i))"
| "py_key (PFloat r) = Some (KNum r)"
| "py_key (PStr s) = Some (KStr s)"
| "py_key (PList xs) = None"
| "py_key (PDict kvs) = None"

type_synonym 'v pydict = "(pyval \<times> 'v) list"

fun dict_find :: "pykey \<Rightarrow> 'v pydict \<Rightarrow> 'v option" where
  "dict_find ck [] = None"
| "dict_find ck ((k', v') # d) = (if py_key k' = Some ck then Some v' else dict_find ck d)"

text \<open>
  Storing under a key that is present replaces the value and keeps the entry's place and
  its key object; a new key goes to the end.
\<close>

fun dict_store :: "pykey \<Rightarrow> pyval \<Rightarrow> 'v \<Rightarrow> 'v pydict \<Rightarrow> 'v pydict" where
  "dict_store ck k v [] = [(k, v)]"
| "dict_store ck k v ((k', v') # d) =
     (if py_key k' = Some ck then (k', v) # d else (k', v') # dict_store ck k v d)"

text \<open>\<^verbatim>\<open>k in d\<close>\<close>

definition dict_contains :: "'v pydict \<Rightarrow> pyval \<Rightarrow> exn + bool" where
  "dict_contains d k =
     (case py_key k of
        None \<Rightarrow> Inl TypeError
      | Some ck \<Rightarrow> Inr (dict_find ck d \<noteq> None))"

text \<open>\<^verbatim>\<open>d[k] = v\<close>\<close>

definition dict_setitem :: "'v pydict \<Rightarrow> pyval \<Rightarrow> 'v \<Rightarrow> exn + 'v pydict" where
  "dict_setitem d k v =
     (case py_key k of
        None \<Rightarrow> Inl TypeError
      | Some ck \<Rightarrow> Inr (dict_store ck k v d))"

text \<open>
  \<^verbatim>\<open>d[k].append(x)\<close>: the list found under the key is extended in place, \<open>KeyError\<close> when
  the key is missing.
\<close>

definition dict_append :: "'a list pydict \<Rightarrow> pyval \<Rightarrow> 'a \<Rightarrow> exn + 'a list pydict" where
  "dict_append d k x =
     (case py_key k of
        None \<Rightarrow> Inl TypeError
      | Some ck \<Rightarrow>
          (case dict_find ck d of
             None \<Rightarrow> Inl KeyError
           | Some xs \<Rightarrow> Inr (dict_store ck k (xs @ [x]) d)))"

section \<open>The response\<close>

text \<open>The record \<^verbatim>\<open>{"confidence": ..., "breed": ..., "animal_type": ...}\<close>.\<close>

record breed_record =
  br_confidence :: pyval
  br_breed :: pyval
  br_animal_type :: string

text \<open>
  \<^verbatim>\<open>AnimalClassificationResponse\<close>. The placeholders of \<^verbatim>\<open>unclassified\<close> are empty
  dictionaries, \<open>PDict []\<close>. Each instance gets its own copy of the defaults.
\<close>

record response =
  classified :: "breed_record list pydict"
  unclassified :: "pyval list"

definition new_response :: response where
  "new_response = \<lparr>classified = [], unclassified = []\<rparr>"

section \<open>predict\<close>

text \<open>
  The \<^verbatim>\<open>try\<close> block of \<^verbatim>\<open>predict\<close>, lines 97 to 131. An exception that leaves one of the
  two classifiers is raised here too.
\<close>

definition predict_body ::
  "console \<Rightarrow> provider \<Rightarrow> upload_file \<Rightarrow> call list \<Rightarrow> (exn + response) \<times> call list" where
  "predict_body con run file calls =
     (case uf_read file of
        Inl e \<Rightarrow> (Inl e, calls)
      | Inr image_content \<Rightarrow>
     (case encode_image image_content (uf_content_type file) of
        Inl e \<Rightarrow> (Inl e, calls)
      | Inr base64_image \<Rightarrow>
     (case classify_animal con run base64_image calls of
        (Inl e, calls1) \<Rightarrow> (Inl e, calls1)
      | (Inr animal_type, calls1) \<Rightarrow>
          (let result = new_response
           in if animal_type \<in> set [''dog'', ''cat''] then
                (case classify_breed con run base64_image animal_type calls1 of
                   (Inl e, calls2) \<Rightarrow> (Inl e, calls2)
                 | (Inr None, calls2) \<Rightarrow> (Inr (result\<lparr>unclassified := [PDict []]\<rparr>), calls2)
                 | (Inr (Some info), calls2) \<Rightarrow>
                     (if py_truthy (bi_breed info) then
                        (let breed_name = bi_breed info;
                             confidence = bi_confidence info
                         in case dict_setitem (classified result) breed_name
                                   [\<lparr>br_confidence = confidence, br_breed = breed_name,
                                     br_animal_type = animal_type\<rparr>] of
                              Inl e \<Rightarrow> (Inl e, calls2)
                            | Inr d \<Rightarrow> (Inr (result\<lparr>classified := d\<rparr>), calls2))
                      else (Inr (result\<lparr>unclassified := [PDict []]\<rparr>), calls2)))
              else (Inr (result\<lparr>unclassified := [PDict []]\<rparr>), calls1)))))"

text \<open>
  Lines 133 to 136, \<^verbatim>\<open>except Exception as e\<close>: the error is printed and a fresh response
  with one placeholder is returned. \<open>Inl\<close> is an exception that leaves the handler.
\<close>

definition predict ::
  "console \<Rightarrow> provider \<Rightarrow> upload_file \<Rightarrow> call list \<Rightarrow> (exn + response) \<times> call list" where
  "predict con run file calls =
     (case predict_body con run file calls of
        (Inl e, calls') \<Rightarrow>
          (except_Exception con (ImageLine e) e \<lparr>classified = [], unclassified = [PDict []]\<rparr>,
           calls')
      | (Inr result, calls') \<Rightarrow> (Inr result, calls'))"

section \<open>batch_predict\<close>

text \<open>The two accumulators of \<^verbatim>\<open>batch_predict\<close>.\<close>

record batch_state =
  classified_data :: "breed_record list pydict"
  unclassified_images :: "pyval list"

text \<open>
  The \<^verbatim>\<open>try\<close> block of the loop, lines 148 to 186, for one file. The accumulators are
  changed in place by the last statement of each branch only, and a dictionary
  operation that raises changes nothing, so an exception leaves them as they were:
  \<open>Inl\<close> carries no state.
\<close>

definition batch_body ::
  "console \<Rightarrow> provider \<Rightarrow> upload_file \<Rightarrow> batch_state \<Rightarrow> call list
     \<Rightarrow> (exn + batch_state) \<times> call list" where
  "batch_body con run file st calls =
     (case uf_read file of
        Inl e \<Rightarrow> (Inl e, calls)
      | Inr image_content \<Rightarrow>
     (case encode_image image_content (uf_content_type file) of
        Inl e \<Rightarrow> (Inl e, calls)
      | Inr base64_image \<Rightarrow>
     (case classify_animal con run base64_image calls of
        (Inl e, calls1) \<Rightarrow> (Inl e, calls1)
      | (Inr animal_type, calls1) \<Rightarrow>
          (if animal_type \<in> set [''dog'', ''cat''] then
             (case classify_breed con run base64_image animal_type calls1 of
                (Inl e, calls2) \<Rightarrow> (Inl e, calls2)
              | (Inr None, calls2) \<Rightarrow>
                  (Inr (st\<lparr>unclassified_images := unclassified_images st @ [PDict []]\<rparr>), calls2)
              | (Inr (Some info), calls2) \<Rightarrow>
                  (if py_truthy (bi_breed info) then
                     (let breed_name = bi_breed info;
                          confidence = bi_confidence info;
                          entry = \<lparr>br_confidence = confidence, br_breed = breed_name,
                                   br_animal_type = animal_type\<rparr>
                      in case dict_contains (classified_data st) breed_name of
                           Inl e \<Rightarrow> (Inl e, calls2)
                         | Inr True \<Rightarrow>
                             (case dict_append (classified_data st) breed_name entry of
                                Inl e \<Rightarrow> (Inl e, calls2)
                              | Inr d \<Rightarrow> (Inr (st\<lparr>classified_data := d\<rparr>), calls2))
                         | Inr False \<Rightarrow>
                             (case dict_setitem (classified_data st) breed_name [entry] of
                                Inl e \<Rightarrow> (Inl e, calls2)
                              | Inr d \<Rightarrow> (Inr (st\<lparr>classified_data := d\<rparr>), calls2)))
                   else (Inr (st\<lparr>unclassified_images := unclassified_images st @ [PDict []]\<rparr>),
                         calls2)))
           else (Inr (st\<lparr>unclassified_images := unclassified_images st @ [PDict []]\<rparr>),
                 calls1)))))"

text \<open>
  One turn of the loop: the body, and lines 188 to 190, \<^verbatim>\<open>except Exception as e\<close>: the
  error is printed and one placeholder is appended.
\<close>

definition batch_step ::
  "console \<Rightarrow> provider \<Rightarrow> upload_file \<Rightarrow> batch_state \<Rightarrow> call list
     \<Rightarrow> (exn + batch_state) \<times> call list" where
  "batch_step con run file st calls =
     (case batch_body con run file st calls of
        (Inl e, calls') \<Rightarrow>
          (except_Exception con (ImageLine e) e
             (st\<lparr>unclassified_images := unclassified_images st @ [PDict []]\<rparr>),
           calls')
      | (Inr st', calls') \<Rightarrow> (Inr st', calls'))"

text \<open>
  \<^verbatim>\<open>for file in files\<close>: an exception that leaves a turn leaves the loop, and the files
  after it are not looked at.
\<close>

fun batch_loop ::
  "console \<Rightarrow> provider \<Rightarrow> upload_file list \<Rightarrow> batch_state \<Rightarrow> call list
     \<Rightarrow> (exn + batch_state) \<times> call list" where
  "batch_loop con run [] st calls = (Inr st, calls)"
| "batch_loop con run (file # files) st calls =
     (case batch_step con run file st calls of
        (Inl e, calls') \<Rightarrow> (Inl e, calls')
      | (Inr st', calls') \<Rightarrow> batch_loop con run files st' calls')"

text \<open>The handler has no \<^verbatim>\<open>try\<close> of its own around the loop.\<close>

definition batch_predict ::
  "console \<Rightarrow> provider \<Rightarrow> upload_file list \<Rightarrow> call list \<Rightarrow> (exn + response) \<times> call list" where
  "batch_predict con run files calls =
     (let result = new_response;
          classified_data0 = [];
          unclassified_images0 = []
      in case batch_loop con run files
                \<lparr>classified_data = classified_data0,
                 unclassified_images = unclassified_images0\<rparr> calls of
           (Inl e, calls') \<Rightarrow> (Inl e, calls')
         | (Inr st, calls') \<Rightarrow>
             (Inr (result\<lparr>classified := classified_data st,
                          unclassified := unclassified_images st\<rparr>), calls'))"

section \<open>Closed forms of the classifiers and of the handlers\<close>

text \<open>
  The definitions of this section are not in the source: they name what the functions
  above compute, and each is tied to the function it describes by a lemma below.
  \<open>species_of\<close> is what \<^verbatim>\<open>classify_animal\<close> returns or raises and \<open>breed_of\<close> what
  \<^verbatim>\<open>classify_breed\<close> returns or raises for a dog or a cat. \<open>image_body\<close> is the outcome of
  the \<^verbatim>\<open>try\<close> block of a handler for one image and \<open>image_result\<close> the outcome after its
  \<^verbatim>\<open>except\<close> block: an exception, no record (a placeholder), or the record with its key.
  \<open>image_calls\<close> are the provider calls made for the image.
\<close>

definition species_of :: "console \<Rightarrow> provider \<Rightarrow> string \<Rightarrow> exn + string" where
  "species_of con run image_data =
     (case bind_exn (run (species_call image_data)) species_label of
        Inl e \<Rightarrow> except_Exception con (SpeciesLine e) e ''unclassified''
      | Inr label \<Rightarrow> Inr label)"

definition breed_model_name :: "string \<Rightarrow> string" where
  "breed_model_name animal_type =
     (if animal_type = ''dog'' then ''dog-breed-identification''
      else ''cat-breed-classification'')"

definition breed_of :: "console \<Rightarrow> provider \<Rightarrow> string \<Rightarrow> string \<Rightarrow> exn + breed_info option" where
  "breed_of con run image_data animal_type =
     (case bind_exn (run (breed_call (breed_model_name animal_type) image_data)) parse_breed of
        Inl e \<Rightarrow> except_Exception con (BreedLine e) e None
      | Inr r \<Rightarrow> Inr r)"

definition image_body ::
  "console \<Rightarrow> provider \<Rightarrow> upload_file \<Rightarrow> exn + (pyval \<times> breed_record) option" where
  "image_body con run file =
     (case uf_read file of
        Inl e \<Rightarrow> Inl e
      | Inr image_content \<Rightarrow>
     (case encode_image image_content (uf_content_type file) of
        Inl e \<Rightarrow> Inl e
      | Inr base64_image \<Rightarrow>
     (case species_of con run base64_image of
        Inl e \<Rightarrow> Inl e
      | Inr animal_type \<Rightarrow>
          if animal_type \<in> set [''dog'', ''cat''] then
            (case breed_of con run base64_image animal_type of
               Inl e \<Rightarrow> Inl e
             | Inr None \<Rightarrow> Inr None
             | Inr (Some info) \<Rightarrow>
                 if py_truthy (bi_breed info) then
                   (case py_key (bi_breed info) of
                      None \<Rightarrow> Inl TypeError
                    | Some ck \<Rightarrow>
                        Inr (Some (bi_breed info,
                                   \<lparr>br_confidence = bi_confidence info,
                                    br_breed = bi_breed info,
                                    br_animal_type = animal_type\<rparr>)))
                 else Inr None)
          else Inr None)))"

definition image_result ::
  "console \<Rightarrow> provider \<Rightarrow> upload_file \<Rightarrow> exn + (pyval \<times> breed_record) option" where
  "image_result con run file =
     (case image_body con run file of
        Inl e \<Rightarrow> except_Exception con (ImageLine e) e None
      | Inr x \<Rightarrow> Inr x)"

definition image_calls :: "console \<Rightarrow> provider \<Rightarrow> upload_file \<Rightarrow> call list" where
  "image_calls con run file =
     (case uf_read file of
        Inl e \<Rightarrow> []
      | Inr image_content \<Rightarrow>
     (case encode_image image_content (uf_content_type file) of
        Inl e \<Rightarrow> []
      | Inr base64_image \<Rightarrow>
     (case species_of con run base64_image of
        Inl e \<Rightarrow> [species_call base64_image]
      | Inr animal_type \<Rightarrow>
          if animal_type \<in> set [''dog'', ''cat'']
          then [species_call base64_image,
                breed_call (breed_model_name animal_type) base64_image]
          else [species_call base64_image])))"

text \<open>The response of \<^verbatim>\<open>predict\<close> for an image with or without a record.\<close>

definition single_response :: "(pyval \<times> breed_record) option \<Rightarrow> response" where
  "single_response x =
     (case x of
        None \<Rightarrow> \<lparr>classified = [], unclassified = [PDict []]\<rparr>
      | Some (k, entry) \<Rightarrow> \<lparr>classified = [(k, [entry])], unclassified = []\<rparr>)"

text \<open>What the two branches of lines 168 to 180 do to the dictionary, taken together.\<close>

definition dict_add :: "'a list pydict \<Rightarrow> pyval \<Rightarrow> 'a \<Rightarrow> 'a list pydict" where
  "dict_add d k x =
     (case py_key k of
        None \<Rightarrow> d
      | Some ck \<Rightarrow>
          (case dict_find ck d of
             None \<Rightarrow> dict_store ck k [x] d
           | Some xs \<Rightarrow> dict_store ck k (xs @ [x]) d))"

text \<open>What a turn of the loop does to the accumulators.\<close>

definition add_placeholder :: "batch_state \<Rightarrow> batch_state" where
  "add_placeholder st = st\<lparr>unclassified_images := unclassified_images st @ [PDict []]\<rparr>"

definition apply_result :: "(pyval \<times> breed_record) option \<Rightarrow> batch_state \<Rightarrow> batch_state" where
  "apply_result x st =
     (case x of
        None \<Rightarrow> add_placeholder st
      | Some (k, entry) \<Rightarrow> st\<lparr>classified_data := dict_add (classified_data st) k entry\<rparr>)"

text \<open>The accumulators after the loop, or the exception that left it.\<close>

fun loop_value :: "console \<Rightarrow> provider \<Rightarrow> upload_file list \<Rightarrow> batch_state \<Rightarrow> exn + batch_state" where
  "loop_value con run [] st = Inr st"
| "loop_value con run (file # files) st =
     (case image_result con run file of
        Inl e \<Rightarrow> Inl e
      | Inr x \<Rightarrow> loop_value con run files (apply_result x st))"

text \<open>The number of records in all the lists of a dictionary.\<close>

definition record_count :: "'a list pydict \<Rightarrow> nat" where
  "record_count d = sum_list (map (\<lambda>kv. length (snd kv)) d)"

section \<open>Sample consoles and providers\<close>

text \<open>
  \<open>quiet_console\<close> prints every line. \<open>ascii_console\<close> is a standard output that cannot
  encode Korean: every line starts with a Korean phrase, so every \<^verbatim>\<open>print\<close> raises
  \<open>UnicodeEncodeError\<close>. \<open>answers species breed\<close> is the provider that gives the first
  answer to the species model and the second to every other call. \<open>sample_provider\<close> sees
  a dog in every image and a beagle in every dog, more surely in the empty PNG than in
  any other image.
\<close>

definition quiet_console :: console where
  "quiet_console line = None"

definition ascii_console :: console where
  "ascii_console line = Some UnicodeEncodeError"

definition answers :: "exn + pyval \<Rightarrow> exn + pyval \<Rightarrow> provider" where
  "answers species breed c = (if fst c = species_model then species else breed)"

definition sample_provider :: provider where
  "sample_provider c =
     (if fst c = species_model then Inr (PStr '' Dog'')
      else Inr (PList [PDict [(''label'', PStr ''beagle''),
                              (''confidence'',
                               PFloat (if map_of (snd c) ''image'' = Some ''data:image/png;base64,''
                                       then 9 / 10 else 1 / 2))]]))"

section \<open>Lemmas\<close>

text \<open>The encoder follows RFC 4648 on its test vectors (the bytes of "foobar").\<close>

lemma b64encode_rfc4648:
  "b64encode [102, 111, 111, 98, 97, 114] = ''Zm9vYmFy''"
  "b64encode [102, 111, 111, 98, 97] = ''Zm9vYmE=''"
  "b64encode [102, 111, 111, 98] = ''Zm9vYg==''"
  "b64encode [102, 111, 111] = ''Zm9v''"
  "b64encode [102, 111] = ''Zm8=''"
  "b64encode [102] = ''Zg==''"
  by code_simp+

text \<open>The \<^verbatim>\<open>except\<close> block, case by case.\<close>

lemma except_Exception_printed:
  "is_exception e \<Longrightarrow> con line = None \<Longrightarrow> except_Exception con line e x = Inr x"
  by (simp add: except_Exception_def py_print_def bind_exn_def)

lemma except_Exception_print_raises:
  "is_exception e \<Longrightarrow> con line = Some e' \<Longrightarrow> except_Exception con line e x = Inl e'"
  by (simp add: except_Exception_def py_print_def bind_exn_def)

lemma except_Exception_not_caught:
  "\<not> is_exception e \<Longrightarrow> except_Exception con line e x = Inl e"
  by (simp add: except_Exception_def)

lemma except_Exception_Inr:
  "except_Exception con line e x = Inr y \<Longrightarrow> y = x"
  by (auto simp add: except_Exception_def py_print_def bind_exn_def
      split: if_splits option.splits)

lemma classify_animal_eq:
  "classify_animal con run image_data calls =
     (species_of con run image_data, calls @ [species_call image_data])"
  by (simp add: classify_animal_def classify_animal_body_def replicate_run_def species_of_def
      split: sum.splits)

lemma classify_breed_eq:
  "classify_breed con run image_data animal_type calls =
     (if animal_type \<notin> set [''dog'', ''cat''] then (Inr None, calls)
      else (breed_of con run image_data animal_type,
            calls @ [breed_call (breed_model_name animal_type) image_data]))"
  by (simp add: classify_breed_def classify_breed_body_def replicate_run_def breed_of_def
      breed_model_name_def split: sum.splits)

text \<open>The label \<open>dog\<close> or \<open>cat\<close> never comes out of the \<^verbatim>\<open>except\<close> block.\<close>

lemma species_of_dog_cat:
  "species_of con run image_data = Inr animal_type \<Longrightarrow>
   animal_type \<in> set [''dog'', ''cat''] \<Longrightarrow>
   bind_exn (run (species_call image_data)) species_label = Inr animal_type"
  by (auto simp add: species_of_def split: sum.splits dest!: except_Exception_Inr)

text \<open>\<open>py_in\<close> is containment as a contiguous piece.\<close>

lemma py_in_iff: "py_in sub s \<longleftrightarrow> (\<exists>pre post. s = pre @ sub @ post)"
proof (induction s)
  case Nil
  then show ?case by auto
next
  case (Cons c s)
  show ?case
  proof
    assume "py_in sub (c # s)"
    then consider "take (length sub) (c # s) = sub" | "py_in sub s" by auto
    then show "\<exists>pre post. c # s = pre @ sub @ post"
    proof cases
      case 1
      then have "c # s = [] @ sub @ drop (length sub) (c # s)"
        by (metis append_Nil append_take_drop_id)
      then show ?thesis by blast
    next
      case 2
      then obtain pre post where "s = pre @ sub @ post" using Cons.IH by blast
      then have "c # s = (c # pre) @ sub @ post" by simp
      then show ?thesis by blast
    qed
  next
    assume "\<exists>pre post. c # s = pre @ sub @ post"
    then obtain pre post where eq: "c # s = pre @ sub @ post" by blast
    show "py_in sub (c # s)"
    proof (cases pre)
      case Nil
      then have "take (length sub) (c # s) = sub" using eq by simp
      then show ?thesis by simp
    next
      case (Cons p pre')
      then have "s = pre' @ sub @ post" using eq by simp
      then have "py_in sub s" using Cons.IH by blast
      then show ?thesis by simp
    qed
  qed
qed

lemma species_label_str:
  "species_label (PStr s) =
     Inr (if py_lower (py_strip s) = [] \<or> py_lower (py_strip s) = ''other''
             \<or> py_in ''cannot'' (py_lower (py_strip s))
             \<or> py_in ''not sure'' (py_lower (py_strip s))
             \<or> py_in ''unclear'' (py_lower (py_strip s))
          then ''unclassified'' else py_lower (py_strip s))"
  by (simp add: species_label_def bind_exn_def Let_def)

text \<open>The handlers in closed form.\<close>

lemma predict_body_eq:
  "predict_body con run file calls =
     (case image_body con run file of
        Inl e \<Rightarrow> Inl e
      | Inr x \<Rightarrow> Inr (single_response x),
      calls @ image_calls con run file)"
  by (simp add: predict_body_def image_body_def image_calls_def single_response_def
      classify_animal_eq classify_breed_eq new_response_def dict_setitem_def Let_def
      split: sum.splits option.splits)

lemma predict_eq:
  "predict con run file calls =
     (case image_result con run file of
        Inl e \<Rightarrow> Inl e
      | Inr x \<Rightarrow> Inr (single_response x),
      calls @ image_calls con run file)"
  by (auto simp add: predict_def predict_body_eq image_result_def single_response_def
      except_Exception_def py_print_def bind_exn_def
      split: sum.splits option.splits)

lemma batch_body_eq:
  "batch_body con run file st calls =
     (case image_body con run file of
        Inl e \<Rightarrow> Inl e
      | Inr x \<Rightarrow> Inr (apply_result x st),
      calls @ image_calls con run file)"
  by (simp add: batch_body_def image_body_def image_calls_def apply_result_def
      add_placeholder_def classify_animal_eq classify_breed_eq dict_setitem_def
      dict_contains_def dict_append_def dict_add_def Let_def
      split: sum.splits option.splits bool.splits)

lemma batch_step_eq:
  "batch_step con run file st calls =
     (case image_result con run file of
        Inl e \<Rightarrow> Inl e
      | Inr x \<Rightarrow> Inr (apply_result x st),
      calls @ image_calls con run file)"
  by (auto simp add: batch_step_def batch_body_eq image_result_def apply_result_def
      add_placeholder_def except_Exception_def py_print_def bind_exn_def
      split: sum.splits option.splits)

lemma batch_loop_value:
  "fst (batch_loop con run files st calls) = loop_value con run files st"
  by (induction files arbitrary: st calls) (auto simp add: batch_step_eq split: sum.splits)

lemma batch_predict_eq:
  "fst (batch_predict con run files calls) =
     (case loop_value con run files \<lparr>classified_data = [], unclassified_images = []\<rparr> of
        Inl e \<Rightarrow> Inl e
      | Inr st \<Rightarrow>
          Inr \<lparr>classified = classified_data st, unclassified = unclassified_images st\<rparr>)"
proof -
  obtain v calls' where
    l: "batch_loop con run files \<lparr>classified_data = [], unclassified_images = []\<rparr> calls
          = (v, calls')"
    by (cases "batch_loop con run files \<lparr>classified_data = [], unclassified_images = []\<rparr> calls")
  then have "v = loop_value con run files \<lparr>classified_data = [], unclassified_images = []\<rparr>"
    using batch_loop_value
      [of con run files "\<lparr>classified_data = [], unclassified_images = []\<rparr>" calls]
    by simp
  then show ?thesis
    using l by (simp add: batch_predict_def new_response_def Let_def split: sum.splits)
qed

text \<open>The dictionary.\<close>

lemma record_count_store_new:
  "dict_find ck d = None \<Longrightarrow> record_count (dict_store ck k v d) = record_count d + length v"
  by (induction d) (auto simp add: record_count_def split: if_splits)

lemma record_count_store_old:
  "dict_find ck d = Some xs \<Longrightarrow>
   record_count (dict_store ck k (xs @ [x]) d) = record_count d + 1"
  by (induction d) (auto simp add: record_count_def split: if_splits)

lemma record_count_dict_add:
  "py_key k \<noteq> None \<Longrightarrow> record_count (dict_add d k x) = record_count d + 1"
  by (auto simp add: dict_add_def record_count_store_new record_count_store_old
      split: option.splits)





text \<open>An image that gives a record.\<close>

lemma image_body_key:
  "image_body con run file = Inr (Some (k, entry)) \<Longrightarrow>
   py_key k \<noteq> None \<and> py_truthy k \<and> br_breed entry = k
   \<and> br_animal_type entry \<in> set [''dog'', ''cat'']"
  by (auto simp add: image_body_def split: sum.splits option.splits if_splits)

lemma image_result_Some:
  "image_result con run file = Inr (Some a) \<longleftrightarrow> image_body con run file = Inr (Some a)"
  by (auto simp add: image_result_def split: sum.splits dest: except_Exception_Inr)

lemma image_result_key:
  "image_result con run file = Inr (Some (k, entry)) \<Longrightarrow>
   py_key k \<noteq> None \<and> py_truthy k \<and> br_breed entry = k
   \<and> br_animal_type entry \<in> set [''dog'', ''cat'']"
  using image_body_key by (simp add: image_result_Some)

text \<open>One turn and the whole loop count one entry per image.\<close>

lemma apply_result_count:
  assumes "x = None \<or> (\<exists>k entry. x = Some (k, entry) \<and> py_key k \<noteq> None)"
  shows "record_count (classified_data (apply_result x st))
           + length (unclassified_images (apply_result x st))
         = record_count (classified_data st) + length (unclassified_images st) + 1"
  using assms
  by (auto simp add: apply_result_def add_placeholder_def record_count_dict_add)

lemma image_result_shape:
  "image_result con run file = Inr x \<Longrightarrow>
   x = None \<or> (\<exists>k entry. x = Some (k, entry) \<and> py_key k \<noteq> None)"
  by (cases x) (auto dest: image_result_key)

lemma loop_value_count:
  "loop_value con run files st = Inr st' \<Longrightarrow>
   record_count (classified_data st') + length (unclassified_images st')
   = record_count (classified_data st) + length (unclassified_images st) + length files"
proof (induction files arbitrary: st)
  case Nil
  then show ?case by simp
next
  case (Cons f fs)
  from Cons.prems obtain x where
    x: "image_result con run f = Inr x" and
    rest: "loop_value con run fs (apply_result x st) = Inr st'"
    by (auto split: sum.splits)
  from Cons.IH [OF rest] apply_result_count [OF image_result_shape [OF x], of st]
  show ?case by simp
qed






text \<open>The encoding step.\<close>

lemma split_acc_no_sep: "sep \<notin> set s \<Longrightarrow> split_acc sep acc s = [acc @ s]"
  by (induction s arbitrary: acc) auto

lemma encode_image_subtype:
  "CHR ''/'' \<notin> set subtype \<Longrightarrow>
   encode_image image_content (Some (''image/'' @ subtype)) =
     Inr (''data:image/'' @ subtype @ '';base64,'' @ b64encode image_content)"
  by (simp add: encode_image_def py_split_def split_acc_no_sep)

lemma image_calls_first:
  "uf_read file = Inr image_content \<Longrightarrow>
   encode_image image_content (uf_content_type file) = Inr image_data \<Longrightarrow>
   \<exists>more. image_calls con run file = species_call image_data # more"
  by (simp add: image_calls_def split: sum.splits)

text \<open>What the steps of the pipeline raise are instances of \<open>Exception\<close>.\<close>

lemma species_label_raises: "species_label v = Inl e \<Longrightarrow> is_exception e"
  by (cases v) (auto simp add: species_label_def bind_exn_def Let_def split: if_splits)

lemma py_len_raises: "py_len v = Inl e \<Longrightarrow> is_exception e"
  by (cases v) auto

lemma py_index0_raises: "py_index0 v = Inl e \<Longrightarrow> is_exception e"
  by (cases v rule: py_index0.cases) auto

lemma py_item_raises: "py_item v k = Inl e \<Longrightarrow> is_exception e"
  by (cases v) (auto split: option.splits)

lemma parse_breed_raises: "parse_breed v = Inl e \<Longrightarrow> is_exception e"
  by (auto simp add: parse_breed_def bind_exn_def
      split: if_splits sum.splits
      dest: py_len_raises py_index0_raises py_item_raises)

lemma encode_image_raises: "encode_image image_content ct = Inl e \<Longrightarrow> is_exception e"
  by (auto simp add: encode_image_def Let_def split: option.splits)

text \<open>
  When every \<^verbatim>\<open>print\<close> completes and the provider and the upload raise instances of
  \<open>Exception\<close> only, nothing leaves the classifiers or a turn of a handler.
\<close>

lemma species_of_returns:
  assumes "\<forall>line. con line = None" and "\<forall>c e. run c = Inl e \<longrightarrow> is_exception e"
  shows "\<exists>label. species_of con run image_data = Inr label"
proof (cases "bind_exn (run (species_call image_data)) species_label")
  case (Inl e)
  have "is_exception e"
  proof (cases "run (species_call image_data)")
    case (Inl e')
    then have "e' = e"
      using \<open>bind_exn (run (species_call image_data)) species_label = Inl e\<close>
      by (simp add: bind_exn_def)
    then show ?thesis using Inl assms(2) by blast
  next
    case (Inr v)
    then have "species_label v = Inl e"
      using \<open>bind_exn (run (species_call image_data)) species_label = Inl e\<close>
      by (simp add: bind_exn_def)
    then show ?thesis by (rule species_label_raises)
  qed
  then show ?thesis
    using Inl assms(1) by (simp add: species_of_def except_Exception_printed)
next
  case (Inr label)
  then show ?thesis by (simp add: species_of_def)
qed

lemma breed_of_returns:
  assumes "\<forall>line. con line = None" and "\<forall>c e. run c = Inl e \<longrightarrow> is_exception e"
  shows "\<exists>r. breed_of con run image_data animal_type = Inr r"
proof (cases "bind_exn (run (breed_call (breed_model_name animal_type) image_data)) parse_breed")
  case (Inl e)
  have "is_exception e"
  proof (cases "run (breed_call (breed_model_name animal_type) image_data)")
    case (Inl e')
    then have "e' = e"
      using \<open>bind_exn (run (breed_call (breed_model_name animal_type) image_data)) parse_breed
               = Inl e\<close>
      by (simp add: bind_exn_def)
    then show ?thesis using Inl assms(2) by blast
  next
    case (Inr v)
    then have "parse_breed v = Inl e"
      using \<open>bind_exn (run (breed_call (breed_model_name animal_type) image_data)) parse_breed
               = Inl e\<close>
      by (simp add: bind_exn_def)
    then show ?thesis by (rule parse_breed_raises)
  qed
  then show ?thesis
    using Inl assms(1) by (simp add: breed_of_def except_Exception_printed)
next
  case (Inr r)
  then show ?thesis by (simp add: breed_of_def)
qed

lemma image_body_raises:
  assumes "\<forall>line. con line = None" and "\<forall>c e. run c = Inl e \<longrightarrow> is_exception e"
    and "\<forall>e. uf_read file = Inl e \<longrightarrow> is_exception e"
    and "image_body con run file = Inl e"
  shows "is_exception e"
proof -
  have s: "species_of con run image_data \<noteq> Inl e'" for image_data e'
    using species_of_returns [OF assms(1,2), of image_data] by auto
  have b: "breed_of con run image_data animal_type \<noteq> Inl e'" for image_data animal_type e'
    using breed_of_returns [OF assms(1,2), of image_data animal_type] by auto
  show ?thesis
    using assms(3,4) s b
    by (auto simp add: image_body_def split: sum.splits option.splits if_splits
        dest: encode_image_raises)
qed

lemma image_result_returns:
  assumes "\<forall>line. con line = None" and "\<forall>c e. run c = Inl e \<longrightarrow> is_exception e"
    and "\<forall>e. uf_read file = Inl e \<longrightarrow> is_exception e"
  shows "\<exists>x. image_result con run file = Inr x"
proof (cases "image_body con run file")
  case (Inl e)
  then have "is_exception e" using assms by (intro image_body_raises)
  then show ?thesis
    using Inl assms(1) by (simp add: image_result_def except_Exception_printed)
next
  case (Inr x)
  then show ?thesis by (simp add: image_result_def)
qed

lemma loop_value_returns:
  assumes "\<forall>line. con line = None" and "\<forall>c e. run c = Inl e \<longrightarrow> is_exception e"
    and "\<forall>f e. f \<in> set files \<and> uf_read f = Inl e \<longrightarrow> is_exception e"
  shows "\<exists>st'. loop_value con run files st = Inr st'"
  using assms(3)
proof (induction files arbitrary: st)
  case Nil
  then show ?case by simp
next
  case (Cons f fs)
  have "\<forall>e. uf_read f = Inl e \<longrightarrow> is_exception e" using Cons.prems by auto
  then obtain x where x: "image_result con run f = Inr x"
    using image_result_returns [OF assms(1,2)] by blast
  have "\<forall>g e. g \<in> set fs \<and> uf_read g = Inl e \<longrightarrow> is_exception e"
    using Cons.prems by auto
  then show ?case using Cons.IH x by simp
qed

text \<open>A turn whose \<^verbatim>\<open>try\<close> block raises.\<close>

lemma image_body_caught:
  "image_body con run file = Inl e \<Longrightarrow> is_exception e \<Longrightarrow> con (ImageLine e) = None \<Longrightarrow>
   image_result con run file = Inr None"
  by (simp add: image_result_def except_Exception_printed)

lemma image_body_not_caught:
  "image_body con run file = Inl e \<Longrightarrow> \<not> is_exception e \<Longrightarrow>
   image_result con run file = Inl e"
  by (simp add: image_result_def except_Exception_not_caught)

text \<open>A failure at one of the stages, with every \<^verbatim>\<open>print\<close> completing.\<close>

lemma stage_failure_no_result:
  assumes "is_exception e" and "\<forall>line. con line = None"
    and "uf_read file = Inl e
     \<or> (uf_read file = Inr image_content
        \<and> encode_image image_content (uf_content_type file) = Inl e)
     \<or> (uf_read file = Inr image_content
        \<and> encode_image image_content (uf_content_type file) = Inr image_data
        \<and> (run (species_call image_data) = Inl e
           \<or> (fst (classify_animal con run image_data calls) = Inr animal_type
              \<and> animal_type \<in> set [''dog'', ''cat'']
              \<and> run (breed_call (breed_model_name animal_type) image_data) = Inl e)))"
  shows "image_result con run file = Inr None"
proof -
  consider
    (read) "uf_read file = Inl e"
  | (encode) "uf_read file = Inr image_content"
      "encode_image image_content (uf_content_type file) = Inl e"
  | (species) "uf_read file = Inr image_content"
      "encode_image image_content (uf_content_type file) = Inr image_data"
      "run (species_call image_data) = Inl e"
  | (breed) "uf_read file = Inr image_content"
      "encode_image image_content (uf_content_type file) = Inr image_data"
      "fst (classify_animal con run image_data calls) = Inr animal_type"
      "animal_type \<in> set [''dog'', ''cat'']"
      "run (breed_call (breed_model_name animal_type) image_data) = Inl e"
    using assms(3) by blast
  then show ?thesis
  proof cases
    case read
    then have "image_body con run file = Inl e" by (simp add: image_body_def)
    then show ?thesis using assms(1,2) by (simp add: image_body_caught)
  next
    case encode
    then have "image_body con run file = Inl e" by (simp add: image_body_def)
    then show ?thesis using assms(1,2) by (simp add: image_body_caught)
  next
    case species
    have "species_of con run image_data = Inr ''unclassified''"
      using species(3) assms(1,2)
      by (simp add: species_of_def bind_exn_def except_Exception_printed)
    then have "image_body con run file = Inr None"
      using species(1,2) by (simp add: image_body_def)
    then show ?thesis by (simp add: image_result_def)
  next
    case breed
    have s: "species_of con run image_data = Inr animal_type"
      using breed(3) by (simp add: classify_animal_eq)
    have "breed_of con run image_data animal_type = Inr None"
      using breed(5) assms(1,2)
      by (simp add: breed_of_def bind_exn_def except_Exception_printed)
    then have "image_body con run file = Inr None"
      using breed(1,2,4) s by (simp add: image_body_def)
    then show ?thesis by (simp add: image_result_def)
  qed
qed


section \<open>The claims\<close>

text \<open>
  C1. Every image processed by a prediction endpoint contributes exactly one entry to
  the result: either one record more in the lists of \<open>classified\<close> or one empty
  placeholder more in \<open>unclassified\<close>, never both and never neither. A response of
  \<^verbatim>\<open>predict\<close> holds one record and no placeholder, or no record and one placeholder; every
  turn of the loop of \<^verbatim>\<open>batch_predict\<close> that completes adds one record and leaves
  \<open>unclassified\<close> alone, or appends one placeholder and leaves \<open>classified\<close> alone; and in
  a response of \<^verbatim>\<open>batch_predict\<close> the records and the placeholders together are as many
  as the files. The handlers do give a response when every \<^verbatim>\<open>print\<close> completes and the
  provider and the uploads raise instances of \<open>Exception\<close> only.
\<close>

theorem one_entry_per_image:
  "(\<forall>r. fst (predict con run file calls) = Inr r \<longrightarrow>
        (record_count (classified r) = 1 \<and> unclassified r = [])
        \<or> (record_count (classified r) = 0 \<and> unclassified r = [PDict []]))
   \<and> (\<forall>st'. fst (batch_step con run file st calls) = Inr st' \<longrightarrow>
        (record_count (classified_data st') = record_count (classified_data st) + 1
         \<and> unclassified_images st' = unclassified_images st)
        \<or> (classified_data st' = classified_data st
           \<and> unclassified_images st' = unclassified_images st @ [PDict []]))
   \<and> (\<forall>r. fst (batch_predict con run files calls) = Inr r \<longrightarrow>
        record_count (classified r) + length (unclassified r) = length files)
   \<and> ((\<forall>line. con line = None) \<and> (\<forall>c e. run c = Inl e \<longrightarrow> is_exception e)
       \<and> (\<forall>f e. f \<in> set (file # files) \<and> uf_read f = Inl e \<longrightarrow> is_exception e)
      \<longrightarrow> (\<exists>r. fst (predict con run file calls) = Inr r)
          \<and> (\<exists>st'. fst (batch_step con run file st calls) = Inr st')
          \<and> (\<exists>r. fst (batch_predict con run files calls) = Inr r))"
proof (intro conjI allI impI)
  fix r
  assume "fst (predict con run file calls) = Inr r"
  then obtain x where x: "image_result con run file = Inr x" and r: "r = single_response x"
    by (auto simp add: predict_eq split: sum.splits)
  show "(record_count (classified r) = 1 \<and> unclassified r = [])
        \<or> (record_count (classified r) = 0 \<and> unclassified r = [PDict []])"
    using r by (cases x) (auto simp add: single_response_def record_count_def)
next
  fix st'
  assume "fst (batch_step con run file st calls) = Inr st'"
  then obtain x where x: "image_result con run file = Inr x" and st': "st' = apply_result x st"
    by (auto simp add: batch_step_eq split: sum.splits)
  show "(record_count (classified_data st') = record_count (classified_data st) + 1
         \<and> unclassified_images st' = unclassified_images st)
        \<or> (classified_data st' = classified_data st
           \<and> unclassified_images st' = unclassified_images st @ [PDict []])"
  proof (cases x)
    case None
    then show ?thesis using st' by (simp add: apply_result_def add_placeholder_def)
  next
    case (Some a)
    obtain k entry where a: "a = (k, entry)" by (cases a)
    have "py_key k \<noteq> None" using x Some a image_result_key by blast
    then show ?thesis
      using st' Some a by (simp add: apply_result_def record_count_dict_add)
  qed
next
  fix r
  assume "fst (batch_predict con run files calls) = Inr r"
  then obtain st' where
    l: "loop_value con run files \<lparr>classified_data = [], unclassified_images = []\<rparr> = Inr st'"
    and r: "r = \<lparr>classified = classified_data st', unclassified = unclassified_images st'\<rparr>"
    by (auto simp add: batch_predict_eq split: sum.splits)
  show "record_count (classified r) + length (unclassified r) = length files"
    using loop_value_count [OF l] r by (simp add: record_count_def)
next
  assume h: "(\<forall>line. con line = None) \<and> (\<forall>c e. run c = Inl e \<longrightarrow> is_exception e)
       \<and> (\<forall>f e. f \<in> set (file # files) \<and> uf_read f = Inl e \<longrightarrow> is_exception e)"
  then have q: "\<forall>line. con line = None" and p: "\<forall>c e. run c = Inl e \<longrightarrow> is_exception e"
    and u: "\<forall>e. uf_read file = Inl e \<longrightarrow> is_exception e"
    and us: "\<forall>f e. f \<in> set files \<and> uf_read f = Inl e \<longrightarrow> is_exception e"
    by auto
  obtain x where x: "image_result con run file = Inr x"
    using image_result_returns [OF q p u] by blast
  show "\<exists>r. fst (predict con run file calls) = Inr r"
    by (simp add: predict_eq x)
  show "\<exists>st'. fst (batch_step con run file st calls) = Inr st'"
    by (simp add: batch_step_eq x)
  obtain st' where
    "loop_value con run files \<lparr>classified_data = [], unclassified_images = []\<rparr> = Inr st'"
    using loop_value_returns [OF q p us] by blast
  then show "\<exists>r. fst (batch_predict con run files calls) = Inr r"
    by (simp add: batch_predict_eq)
qed

theorem one_entry_per_image_witness:
  "\<exists>r. fst (batch_predict quiet_console sample_provider
             [\<lparr>uf_read = Inr [], uf_content_type = Some ''image/png''\<rparr>,
              \<lparr>uf_read = Inl (OtherError ''read failed''), uf_content_type = None\<rparr>] []) = Inr r
        \<and> record_count (classified r) + length (unclassified r) = 2"
proof -
  have q: "\<forall>line. quiet_console line = None"
    by (simp add: quiet_console_def)
  have p: "\<forall>c e. sample_provider c = Inl e \<longrightarrow> is_exception e"
    by (simp add: sample_provider_def)
  have u: "\<forall>f e. f \<in> set (\<lparr>uf_read = Inr [], uf_content_type = Some ''image/png''\<rparr>
                          # [\<lparr>uf_read = Inr [], uf_content_type = Some ''image/png''\<rparr>,
                             \<lparr>uf_read = Inl (OtherError ''read failed''),
                              uf_content_type = None\<rparr>])
               \<and> uf_read f = Inl e \<longrightarrow> is_exception e"
    by auto
  note t = one_entry_per_image
    [of quiet_console sample_provider
      "\<lparr>uf_read = Inr [], uf_content_type = Some ''image/png''\<rparr>" "[]"
      _ "[\<lparr>uf_read = Inr [], uf_content_type = Some ''image/png''\<rparr>,
          \<lparr>uf_read = Inl (OtherError ''read failed''), uf_content_type = None\<rparr>]"]
  from t [THEN conjunct2, THEN conjunct2, THEN conjunct2] q p u
  obtain r where r: "fst (batch_predict quiet_console sample_provider
             [\<lparr>uf_read = Inr [], uf_content_type = Some ''image/png''\<rparr>,
              \<lparr>uf_read = Inl (OtherError ''read failed''), uf_content_type = None\<rparr>] []) = Inr r"
    by blast
  from t [THEN conjunct2, THEN conjunct2, THEN conjunct1] r
  have "record_count (classified r) + length (unclassified r) = 2"
    by simp
  then show ?thesis using r by blast
qed

text \<open>
  C2, as amended. When the species call answers with a text, \<^verbatim>\<open>classify_animal\<close> strips and
  lowercases it and returns \<open>unclassified\<close> if the normalised answer is empty, is
  \<open>other\<close>, or contains \<open>cannot\<close>, \<open>not sure\<close> or \<open>unclear\<close>; otherwise it returns the
  normalised answer as it is, with no check against the set of species. So the result is
  \<open>unclassified\<close> exactly when one of these conditions holds or the normalised answer is
  itself \<open>unclassified\<close>. The answers "Dog", " dog " and "DOG" give \<open>dog\<close>; "not sure",
  "", "other" and "I cannot tell" give \<open>unclassified\<close>.
\<close>

theorem classify_animal_text:
  "(run (species_call image_data) = Inr (PStr answer) \<longrightarrow>
      fst (classify_animal con run image_data calls) =
        Inr (if py_lower (py_strip answer) = []
                \<or> py_lower (py_strip answer) = ''other''
                \<or> (\<exists>pre post. py_lower (py_strip answer) = pre @ ''cannot'' @ post)
                \<or> (\<exists>pre post. py_lower (py_strip answer) = pre @ ''not sure'' @ post)
                \<or> (\<exists>pre post. py_lower (py_strip answer) = pre @ ''unclear'' @ post)
             then ''unclassified'' else py_lower (py_strip answer))
      \<and> (fst (classify_animal con run image_data calls) = Inr ''unclassified'' \<longleftrightarrow>
           py_lower (py_strip answer) = []
           \<or> py_lower (py_strip answer) = ''other''
           \<or> (\<exists>pre post. py_lower (py_strip answer) = pre @ ''cannot'' @ post)
           \<or> (\<exists>pre post. py_lower (py_strip answer) = pre @ ''not sure'' @ post)
           \<or> (\<exists>pre post. py_lower (py_strip answer) = pre @ ''unclear'' @ post)
           \<or> py_lower (py_strip answer) = ''unclassified''))
   \<and> species_label (PStr ''Dog'') = Inr ''dog''
   \<and> species_label (PStr '' dog '') = Inr ''dog''
   \<and> species_label (PStr ''DOG'') = Inr ''dog''
   \<and> species_label (PStr ''not sure'') = Inr ''unclassified''
   \<and> species_label (PStr []) = Inr ''unclassified''
   \<and> species_label (PStr ''other'') = Inr ''unclassified''
   \<and> species_label (PStr ''I cannot tell'') = Inr ''unclassified''"
proof -
  have general: "fst (classify_animal con run image_data calls) =
        Inr (if py_lower (py_strip answer) = []
                \<or> py_lower (py_strip answer) = ''other''
                \<or> (\<exists>pre post. py_lower (py_strip answer) = pre @ ''cannot'' @ post)
                \<or> (\<exists>pre post. py_lower (py_strip answer) = pre @ ''not sure'' @ post)
                \<or> (\<exists>pre post. py_lower (py_strip answer) = pre @ ''unclear'' @ post)
             then ''unclassified'' else py_lower (py_strip answer))"
    if "run (species_call image_data) = Inr (PStr answer)"
    using that
    by (simp only: classify_animal_eq species_of_def bind_exn_def species_label_str py_in_iff
        sum.case fst_conv)
  have e1: "species_label (PStr ''Dog'') = Inr ''dog''" by code_simp
  have e2: "species_label (PStr '' dog '') = Inr ''dog''" by code_simp
  have e3: "species_label (PStr ''DOG'') = Inr ''dog''" by code_simp
  have e4: "species_label (PStr ''not sure'') = Inr ''unclassified''" by code_simp
  have e5: "species_label (PStr []) = Inr ''unclassified''" by code_simp
  have e6: "species_label (PStr ''other'') = Inr ''unclassified''" by code_simp
  have e7: "species_label (PStr ''I cannot tell'') = Inr ''unclassified''" by code_simp
  show ?thesis
    using general e1 e2 e3 e4 e5 e6 e7 by auto
qed

theorem classify_animal_text_witness:
  "answers (Inr (PStr '' Dog'')) (Inr PNone) (species_call ''x'') = Inr (PStr '' Dog'')
   \<and> fst (classify_animal quiet_console (answers (Inr (PStr '' Dog'')) (Inr PNone)) ''x'' [])
       = Inr ''dog''"
proof -
  have h: "answers (Inr (PStr '' Dog'')) (Inr PNone) (species_call ''x'') = Inr (PStr '' Dog'')"
    by (simp add: answers_def species_call_def)
  have n: "py_lower (py_strip '' Dog'') = ''dog''"
    by code_simp
  from classify_animal_text
    [of "answers (Inr (PStr '' Dog'')) (Inr PNone)" "''x''" "'' Dog''" quiet_console "[]"] h
  show ?thesis
    unfolding n by (simp add: py_in_iff [symmetric])
qed

text \<open>
  The claim as it stands says "if and only if". The answer "unclassified" is returned as
  it is: the result is \<open>unclassified\<close> although the normalised answer is not empty, is not
  \<open>other\<close> and contains none of the three markers.
\<close>

theorem classify_animal_iff_counterexample:
  "fst (classify_animal quiet_console (answers (Inr (PStr ''unclassified'')) (Inr PNone))
          ''x'' [])
     = Inr ''unclassified''
   \<and> py_lower (py_strip ''unclassified'') \<noteq> []
   \<and> py_lower (py_strip ''unclassified'') \<noteq> ''other''
   \<and> \<not> py_in ''cannot'' (py_lower (py_strip ''unclassified''))
   \<and> \<not> py_in ''not sure'' (py_lower (py_strip ''unclassified''))
   \<and> \<not> py_in ''unclear'' (py_lower (py_strip ''unclassified''))"
proof -
  have n: "py_lower (py_strip ''unclassified'') = ''unclassified''"
    by code_simp
  have a: "answers (Inr (PStr ''unclassified'')) (Inr PNone) (species_call ''x'')
            = Inr (PStr ''unclassified'')"
    by (simp add: answers_def species_call_def)
  show ?thesis
    unfolding n by (simp add: classify_animal_eq species_of_def a bind_exn_def species_label_str n)
qed

text \<open>
  C3, as amended. An instance of \<open>Exception\<close> raised in the pipeline of \<^verbatim>\<open>predict\<close> (by the
  read of the upload, the encoding, the species call, the breed call for a dog or a cat,
  or anywhere in the \<^verbatim>\<open>try\<close> block) is caught, and when the \<^verbatim>\<open>print\<close> of the \<^verbatim>\<open>except\<close>
  block completes the handler returns a response with an empty \<open>classified\<close> and exactly
  one empty placeholder in \<open>unclassified\<close>. So the handler returns a response whenever
  every \<^verbatim>\<open>print\<close> completes and the provider and the upload raise instances of
  \<open>Exception\<close> only. An exception that is not an instance of \<open>Exception\<close> is not caught
  and leaves the handler.
\<close>

theorem predict_catches_exceptions:
  "(is_exception e \<and> (\<forall>line. con line = None)
    \<and> (uf_read file = Inl e
       \<or> (uf_read file = Inr image_content
          \<and> encode_image image_content (uf_content_type file) = Inl e)
       \<or> (uf_read file = Inr image_content
          \<and> encode_image image_content (uf_content_type file) = Inr image_data
          \<and> (run (species_call image_data) = Inl e
             \<or> (fst (classify_animal con run image_data calls) = Inr animal_type
                \<and> animal_type \<in> set [''dog'', ''cat'']
                \<and> run (breed_call (breed_model_name animal_type) image_data) = Inl e))))
    \<longrightarrow> fst (predict con run file calls) = Inr \<lparr>classified = [], unclassified = [PDict []]\<rparr>)
   \<and> (fst (predict_body con run file calls) = Inl e \<and> is_exception e
       \<and> con (ImageLine e) = None
      \<longrightarrow> fst (predict con run file calls) = Inr \<lparr>classified = [], unclassified = [PDict []]\<rparr>)
   \<and> (fst (predict_body con run file calls) = Inl e \<and> \<not> is_exception e
      \<longrightarrow> fst (predict con run file calls) = Inl e)
   \<and> ((\<forall>line. con line = None) \<and> (\<forall>c e'. run c = Inl e' \<longrightarrow> is_exception e')
       \<and> (\<forall>e'. uf_read file = Inl e' \<longrightarrow> is_exception e')
      \<longrightarrow> (\<exists>r. fst (predict con run file calls) = Inr r))"
proof (intro conjI impI)
  assume h: "is_exception e \<and> (\<forall>line. con line = None)
    \<and> (uf_read file = Inl e
       \<or> (uf_read file = Inr image_content
          \<and> encode_image image_content (uf_content_type file) = Inl e)
       \<or> (uf_read file = Inr image_content
          \<and> encode_image image_content (uf_content_type file) = Inr image_data
          \<and> (run (species_call image_data) = Inl e
             \<or> (fst (classify_animal con run image_data calls) = Inr animal_type
                \<and> animal_type \<in> set [''dog'', ''cat'']
                \<and> run (breed_call (breed_model_name animal_type) image_data) = Inl e))))"
  have "image_result con run file = Inr None"
    by (rule stage_failure_no_result [of e con "file" image_content image_data run calls
          animal_type]) (use h in blast)+
  then show "fst (predict con run file calls)
               = Inr \<lparr>classified = [], unclassified = [PDict []]\<rparr>"
    by (simp add: predict_eq single_response_def)
next
  assume "fst (predict_body con run file calls) = Inl e \<and> is_exception e
       \<and> con (ImageLine e) = None"
  then have "image_body con run file = Inl e" and "is_exception e" and "con (ImageLine e) = None"
    by (auto simp add: predict_body_eq split: sum.splits)
  then have "image_result con run file = Inr None"
    by (rule image_body_caught)
  then show "fst (predict con run file calls)
               = Inr \<lparr>classified = [], unclassified = [PDict []]\<rparr>"
    by (simp add: predict_eq single_response_def)
next
  assume "fst (predict_body con run file calls) = Inl e \<and> \<not> is_exception e"
  then have "image_body con run file = Inl e" and "\<not> is_exception e"
    by (auto simp add: predict_body_eq split: sum.splits)
  then have "image_result con run file = Inl e"
    by (rule image_body_not_caught)
  then show "fst (predict con run file calls) = Inl e"
    by (simp add: predict_eq)
next
  assume "(\<forall>line. con line = None) \<and> (\<forall>c e'. run c = Inl e' \<longrightarrow> is_exception e')
       \<and> (\<forall>e'. uf_read file = Inl e' \<longrightarrow> is_exception e')"
  then obtain x where "image_result con run file = Inr x"
    using image_result_returns [of con run "file"] by blast
  then show "\<exists>r. fst (predict con run file calls) = Inr r"
    by (simp add: predict_eq)
qed

theorem predict_catches_exceptions_witness:
  "fst (predict quiet_console (answers (Inr (PStr ''dog'')) (Inr PNone))
          \<lparr>uf_read = Inl (OtherError ''read failed''), uf_content_type = Some ''image/png''\<rparr> [])
     = Inr \<lparr>classified = [], unclassified = [PDict []]\<rparr>"
proof -
  have q: "\<forall>line. quiet_console line = None"
    by (simp add: quiet_console_def)
  have e: "is_exception (OtherError ''read failed'')"
    by simp
  have u: "uf_read \<lparr>uf_read = Inl (OtherError ''read failed''),
                    uf_content_type = Some ''image/png''\<rparr> = Inl (OtherError ''read failed'')"
    by simp
  from predict_catches_exceptions
    [of "OtherError ''read failed''" quiet_console
      "\<lparr>uf_read = Inl (OtherError ''read failed''), uf_content_type = Some ''image/png''\<rparr>",
      THEN conjunct1] q e u
  show ?thesis by blast
qed

text \<open>
  The claim as it stands says that no exception ever leaves the handler. A read of the
  upload that is cancelled raises an exception that \<^verbatim>\<open>except Exception\<close> does not catch;
  and on a standard output that cannot encode Korean the \<^verbatim>\<open>print\<close> of the \<^verbatim>\<open>except\<close>
  block raises in its turn. In both cases the exception leaves \<^verbatim>\<open>predict\<close>.
\<close>

theorem predict_never_raises_counterexample:
  "fst (predict quiet_console (answers (Inr (PStr ''dog'')) (Inr PNone))
          \<lparr>uf_read = Inl (BaseError ''CancelledError''), uf_content_type = Some ''image/png''\<rparr>
          [])
     = Inl (BaseError ''CancelledError'')
   \<and> fst (predict ascii_console (answers (Inr (PStr ''dog'')) (Inr PNone))
          \<lparr>uf_read = Inl (OtherError ''read failed''), uf_content_type = Some ''image/png''\<rparr>
          [])
     = Inl UnicodeEncodeError"
  by (simp add: predict_eq image_result_def image_body_def except_Exception_def py_print_def
      bind_exn_def quiet_console_def ascii_console_def)

text \<open>
  C4. For a species label other than \<open>dog\<close> and \<open>cat\<close>, \<^verbatim>\<open>classify_breed\<close> returns \<open>None\<close>
  and makes no call to the provider (the list of calls is unchanged). When the species
  label of an image is such a label, both handlers give the image one empty placeholder in
  \<open>unclassified\<close> and make the species call only; the outcome is the same under every
  provider that gives the same species answer, whatever it would say about breeds.
\<close>

theorem other_species_unclassified:
  assumes "animal_type \<notin> set [''dog'', ''cat'']"
  shows "classify_breed con run image_data animal_type calls = (Inr None, calls)
     \<and> (uf_read file = Inr image_content
         \<and> encode_image image_content (uf_content_type file) = Inr image_data
         \<and> fst (classify_animal con run image_data calls) = Inr animal_type
        \<longrightarrow> predict con run file calls =
              (Inr \<lparr>classified = [], unclassified = [PDict []]\<rparr>,
               calls @ [species_call image_data])
          \<and> batch_step con run file st calls =
              (Inr (st\<lparr>unclassified_images := unclassified_images st @ [PDict []]\<rparr>),
               calls @ [species_call image_data])
          \<and> (\<forall>run'. run' (species_call image_data) = run (species_call image_data)
                \<longrightarrow> predict con run' file calls = predict con run file calls
                  \<and> batch_step con run' file st calls = batch_step con run file st calls))"
proof (intro conjI impI allI)
  show "classify_breed con run image_data animal_type calls = (Inr None, calls)"
    using assms by (simp add: classify_breed_eq)
next
  assume h: "uf_read file = Inr image_content
         \<and> encode_image image_content (uf_content_type file) = Inr image_data
         \<and> fst (classify_animal con run image_data calls) = Inr animal_type"
  then have sp: "species_of con run image_data = Inr animal_type"
    by (simp add: classify_animal_eq)
  have r: "image_result con run file = Inr None"
    and c: "image_calls con run file = [species_call image_data]"
    using h sp assms by (simp_all add: image_result_def image_body_def image_calls_def)
  show "predict con run file calls =
              (Inr \<lparr>classified = [], unclassified = [PDict []]\<rparr>,
               calls @ [species_call image_data])"
    by (simp add: predict_eq r c single_response_def)
  show "batch_step con run file st calls =
              (Inr (st\<lparr>unclassified_images := unclassified_images st @ [PDict []]\<rparr>),
               calls @ [species_call image_data])"
    by (simp add: batch_step_eq r c apply_result_def add_placeholder_def)
  fix run' :: provider
  assume "run' (species_call image_data) = run (species_call image_data)"
  then have sp': "species_of con run' image_data = Inr animal_type"
    using sp by (simp add: species_of_def)
  have r': "image_result con run' file = Inr None"
    and c': "image_calls con run' file = [species_call image_data]"
    using h sp' assms by (simp_all add: image_result_def image_body_def image_calls_def)
  show "predict con run' file calls = predict con run file calls"
    by (simp add: predict_eq r c r' c')
  show "batch_step con run' file st calls = batch_step con run file st calls"
    by (simp add: batch_step_eq r c r' c')
qed

theorem other_species_unclassified_witness:
  "''rabbit'' \<notin> set [''dog'', ''cat'']
   \<and> classify_breed quiet_console (answers (Inr (PStr ''Rabbit'')) (Inr PNone))
       ''data:image/png;base64,'' ''rabbit'' [] = (Inr None, [])
   \<and> predict quiet_console (answers (Inr (PStr ''Rabbit'')) (Inr PNone))
       \<lparr>uf_read = Inr [], uf_content_type = Some ''image/png''\<rparr> []
     = (Inr \<lparr>classified = [], unclassified = [PDict []]\<rparr>,
        [species_call ''data:image/png;base64,''])"
proof -
  have a: "''rabbit'' \<notin> set [''dog'', ''cat'']" by simp
  have e: "encode_image [] (Some ''image/png'') = Inr ''data:image/png;base64,''"
    by code_simp
  have l: "species_label (PStr ''Rabbit'') = Inr ''rabbit''"
    by code_simp
  have s: "fst (classify_animal quiet_console (answers (Inr (PStr ''Rabbit'')) (Inr PNone))
                 ''data:image/png;base64,'' []) = Inr ''rabbit''"
    by (simp add: classify_animal_eq species_of_def answers_def species_call_def bind_exn_def l)
  from other_species_unclassified [OF a, of quiet_console
      "answers (Inr (PStr ''Rabbit'')) (Inr PNone)"
      "''data:image/png;base64,''" "[]"
      "\<lparr>uf_read = Inr [], uf_content_type = Some ''image/png''\<rparr>" "[]"] a e s
  show ?thesis by simp
qed

text \<open>
  C5, as amended. For the species \<open>dog\<close> or \<open>cat\<close>, \<^verbatim>\<open>classify_breed\<close> makes the breed call;
  from a non-empty list whose element 0 is an object with the fields \<open>label\<close> and
  \<open>confidence\<close> it builds the record of these two fields. When the response is the empty
  list or \<open>None\<close> it returns \<open>None\<close>. When one of the two fields is missing, or when the
  call raises an instance of \<open>Exception\<close>, and the \<^verbatim>\<open>print\<close> of the \<^verbatim>\<open>except\<close> block
  completes, it returns \<open>None\<close>; an exception of the call that is not an instance of
  \<open>Exception\<close> is raised to the caller. When it returns \<open>None\<close>, both handlers give the
  image one empty placeholder in \<open>unclassified\<close>.
\<close>

theorem breed_top_candidate:
  assumes "animal_type \<in> set [''dog'', ''cat'']"
  shows
    "(run (breed_call (breed_model_name animal_type) image_data) = Inr (PList (PDict kvs # rest))
        \<and> map_of kvs ''label'' = Some l \<and> map_of kvs ''confidence'' = Some c
      \<longrightarrow> classify_breed con run image_data animal_type calls =
            (Inr (Some \<lparr>bi_breed = l, bi_confidence = c\<rparr>),
             calls @ [breed_call (breed_model_name animal_type) image_data]))
     \<and> (run (breed_call (breed_model_name animal_type) image_data) = Inr (PList [])
        \<or> run (breed_call (breed_model_name animal_type) image_data) = Inr PNone
      \<longrightarrow> classify_breed con run image_data animal_type calls =
            (Inr None, calls @ [breed_call (breed_model_name animal_type) image_data]))
     \<and> (run (breed_call (breed_model_name animal_type) image_data)
              = Inr (PList (PDict kvs # rest))
        \<and> (map_of kvs ''label'' = None \<or> map_of kvs ''confidence'' = None)
        \<and> con (BreedLine KeyError) = None
      \<longrightarrow> classify_breed con run image_data animal_type calls =
            (Inr None, calls @ [breed_call (breed_model_name animal_type) image_data]))
     \<and> (run (breed_call (breed_model_name animal_type) image_data) = Inl e
        \<and> is_exception e \<and> con (BreedLine e) = None
      \<longrightarrow> classify_breed con run image_data animal_type calls =
            (Inr None, calls @ [breed_call (breed_model_name animal_type) image_data]))
     \<and> (run (breed_call (breed_model_name animal_type) image_data) = Inl e
        \<and> \<not> is_exception e
      \<longrightarrow> classify_breed con run image_data animal_type calls =
            (Inl e, calls @ [breed_call (breed_model_name animal_type) image_data]))
     \<and> (uf_read file = Inr image_content
        \<and> encode_image image_content (uf_content_type file) = Inr image_data
        \<and> fst (classify_animal con run image_data calls) = Inr animal_type
        \<and> fst (classify_breed con run image_data animal_type calls') = Inr None
      \<longrightarrow> fst (predict con run file calls) = Inr \<lparr>classified = [], unclassified = [PDict []]\<rparr>
          \<and> fst (batch_step con run file st calls)
              = Inr (st\<lparr>unclassified_images := unclassified_images st @ [PDict []]\<rparr>))"
proof (intro conjI impI)
  assume "run (breed_call (breed_model_name animal_type) image_data)
            = Inr (PList (PDict kvs # rest))
        \<and> map_of kvs ''label'' = Some l \<and> map_of kvs ''confidence'' = Some c"
  then have "breed_of con run image_data animal_type
               = Inr (Some \<lparr>bi_breed = l, bi_confidence = c\<rparr>)"
    by (simp add: breed_of_def bind_exn_def parse_breed_def)
  then show "classify_breed con run image_data animal_type calls =
            (Inr (Some \<lparr>bi_breed = l, bi_confidence = c\<rparr>),
             calls @ [breed_call (breed_model_name animal_type) image_data])"
    using assms by (simp add: classify_breed_eq)
next
  assume "run (breed_call (breed_model_name animal_type) image_data) = Inr (PList [])
        \<or> run (breed_call (breed_model_name animal_type) image_data) = Inr PNone"
  then have "breed_of con run image_data animal_type = Inr None"
    by (auto simp add: breed_of_def bind_exn_def parse_breed_def)
  then show "classify_breed con run image_data animal_type calls =
            (Inr None, calls @ [breed_call (breed_model_name animal_type) image_data])"
    using assms by (simp add: classify_breed_eq)
next
  assume h: "run (breed_call (breed_model_name animal_type) image_data)
              = Inr (PList (PDict kvs # rest))
        \<and> (map_of kvs ''label'' = None \<or> map_of kvs ''confidence'' = None)
        \<and> con (BreedLine KeyError) = None"
  then have "bind_exn (run (breed_call (breed_model_name animal_type) image_data)) parse_breed
               = Inl KeyError"
    by (auto simp add: bind_exn_def parse_breed_def split: option.splits)
  then have "breed_of con run image_data animal_type = Inr None"
    using h by (simp add: breed_of_def except_Exception_printed)
  then show "classify_breed con run image_data animal_type calls =
            (Inr None, calls @ [breed_call (breed_model_name animal_type) image_data])"
    using assms by (simp add: classify_breed_eq)
next
  assume "run (breed_call (breed_model_name animal_type) image_data) = Inl e
        \<and> is_exception e \<and> con (BreedLine e) = None"
  then have "breed_of con run image_data animal_type = Inr None"
    by (simp add: breed_of_def bind_exn_def except_Exception_printed)
  then show "classify_breed con run image_data animal_type calls =
            (Inr None, calls @ [breed_call (breed_model_name animal_type) image_data])"
    using assms by (simp add: classify_breed_eq)
next
  assume "run (breed_call (breed_model_name animal_type) image_data) = Inl e
        \<and> \<not> is_exception e"
  then have "breed_of con run image_data animal_type = Inl e"
    by (simp add: breed_of_def bind_exn_def except_Exception_not_caught)
  then show "classify_breed con run image_data animal_type calls =
            (Inl e, calls @ [breed_call (breed_model_name animal_type) image_data])"
    using assms by (simp add: classify_breed_eq)
next
  assume h: "uf_read file = Inr image_content
        \<and> encode_image image_content (uf_content_type file) = Inr image_data
        \<and> fst (classify_animal con run image_data calls) = Inr animal_type
        \<and> fst (classify_breed con run image_data animal_type calls') = Inr None"
  then have "species_of con run image_data = Inr animal_type"
    and "breed_of con run image_data animal_type = Inr None"
    using assms by (auto simp add: classify_animal_eq classify_breed_eq)
  then have r: "image_result con run file = Inr None"
    using h assms by (simp add: image_result_def image_body_def)
  show "fst (predict con run file calls) = Inr \<lparr>classified = [], unclassified = [PDict []]\<rparr>"
    by (simp add: predict_eq r single_response_def)
  show "fst (batch_step con run file st calls)
              = Inr (st\<lparr>unclassified_images := unclassified_images st @ [PDict []]\<rparr>)"
    by (simp add: batch_step_eq r apply_result_def add_placeholder_def)
qed

theorem breed_top_candidate_witness:
  "classify_breed quiet_console
       (answers (Inr (PStr ''dog''))
          (Inr (PList [PDict [(''label'', PStr ''beagle''), (''confidence'', PFloat (9 / 10))],
                       PDict [(''label'', PStr ''pug''), (''confidence'', PFloat (1 / 20))]])))
       ''x'' ''dog'' []
     = (Inr (Some \<lparr>bi_breed = PStr ''beagle'', bi_confidence = PFloat (9 / 10)\<rparr>),
        [breed_call ''dog-breed-identification'' ''x''])
   \<and> classify_breed quiet_console (answers (Inr (PStr ''dog'')) (Inr (PList []))) ''x'' ''dog'' []
     = (Inr None, [breed_call ''dog-breed-identification'' ''x''])
   \<and> classify_breed quiet_console
       (answers (Inr (PStr ''dog'')) (Inr (PList [PDict [(''label'', PStr ''beagle'')]])))
       ''x'' ''dog'' []
     = (Inr None, [breed_call ''dog-breed-identification'' ''x''])
   \<and> classify_breed quiet_console
       (answers (Inr (PStr ''dog'')) (Inl (OtherError ''timeout''))) ''x'' ''dog'' []
     = (Inr None, [breed_call ''dog-breed-identification'' ''x''])"
proof -
  have a: "''dog'' \<in> set [''dog'', ''cat'']" by simp
  have n: "breed_model_name ''dog'' = ''dog-breed-identification''"
    by (simp add: breed_model_name_def)
  have m: "fst (breed_call ''dog-breed-identification'' ''x'') \<noteq> species_model"
    by (simp add: breed_call_def breed_model_def species_model_def)
  have q: "quiet_console line = None" for line
    by (simp add: quiet_console_def)
  from breed_top_candidate [OF a, of
      "answers (Inr (PStr ''dog''))
          (Inr (PList [PDict [(''label'', PStr ''beagle''), (''confidence'', PFloat (9 / 10))],
                       PDict [(''label'', PStr ''pug''), (''confidence'', PFloat (1 / 20))]]))"
      "''x''" "[(''label'', PStr ''beagle''), (''confidence'', PFloat (9 / 10))]"
      "[PDict [(''label'', PStr ''pug''), (''confidence'', PFloat (1 / 20))]]"
      "PStr ''beagle''" "PFloat (9 / 10)" quiet_console "[]", THEN conjunct1]
    breed_top_candidate [OF a, of "answers (Inr (PStr ''dog'')) (Inr (PList []))" "''x''"
      _ _ _ _ quiet_console "[]", THEN conjunct2, THEN conjunct1]
    breed_top_candidate [OF a, of
      "answers (Inr (PStr ''dog'')) (Inr (PList [PDict [(''label'', PStr ''beagle'')]]))" "''x''"
      "[(''label'', PStr ''beagle'')]" "[]" _ _ quiet_console "[]",
      THEN conjunct2, THEN conjunct2, THEN conjunct1]
    breed_top_candidate [OF a, of
      "answers (Inr (PStr ''dog'')) (Inl (OtherError ''timeout''))" "''x''"
      _ _ _ _ quiet_console "[]" "OtherError ''timeout''",
      THEN conjunct2, THEN conjunct2, THEN conjunct2, THEN conjunct1]
    n m q
  show ?thesis by (simp add: answers_def)
qed

text \<open>
  The claim as it stands says that a failing call and a missing field give \<open>None\<close>. A
  breed call that is interrupted raises an exception that \<^verbatim>\<open>except Exception\<close> does not
  catch; and on a standard output that cannot encode Korean the \<^verbatim>\<open>print\<close> of the
  \<^verbatim>\<open>except\<close> block raises when a field is missing. In both cases \<^verbatim>\<open>classify_breed\<close> raises
  to its caller.
\<close>

theorem breed_failure_counterexample:
  "fst (classify_breed quiet_console
          (answers (Inr (PStr ''dog'')) (Inl (BaseError ''KeyboardInterrupt''))) ''x'' ''dog'' [])
     = Inl (BaseError ''KeyboardInterrupt'')
   \<and> fst (classify_breed ascii_console
          (answers (Inr (PStr ''dog'')) (Inr (PList [PDict [(''label'', PStr ''beagle'')]])))
          ''x'' ''dog'' [])
     = Inl UnicodeEncodeError"
  by (simp add: classify_breed_eq breed_of_def breed_model_name_def answers_def breed_call_def
      breed_model_def species_model_def bind_exn_def parse_breed_def except_Exception_def
      py_print_def ascii_console_def)

text \<open>
  C6, as amended. When the species call fails with an instance of \<open>Exception\<close>, because
  the provider raises it or because the handling of its output raises it, and the
  \<^verbatim>\<open>print\<close> of the \<^verbatim>\<open>except\<close> block completes, \<^verbatim>\<open>classify_animal\<close> does not raise: it returns
  the label \<open>unclassified\<close>. An exception that is not an instance of \<open>Exception\<close> is not
  caught and is raised to the caller.
\<close>

theorem classify_animal_failure:
  assumes "run (species_call image_data) = Inl e
           \<or> (\<exists>out. run (species_call image_data) = Inr out \<and> species_label out = Inl e)"
  shows "(is_exception e \<and> con (SpeciesLine e) = None \<longrightarrow>
            classify_animal con run image_data calls =
              (Inr ''unclassified'', calls @ [species_call image_data]))
         \<and> (\<not> is_exception e \<longrightarrow>
            classify_animal con run image_data calls =
              (Inl e, calls @ [species_call image_data]))"
proof -
  have "bind_exn (run (species_call image_data)) species_label = Inl e"
    using assms by (auto simp add: bind_exn_def)
  then show ?thesis
    by (simp add: classify_animal_eq species_of_def except_Exception_printed
        except_Exception_not_caught)
qed

theorem classify_animal_failure_witness:
  "classify_animal quiet_console (answers (Inl (OtherError ''timeout'')) (Inr PNone)) ''x'' []
     = (Inr ''unclassified'', [species_call ''x''])
   \<and> classify_animal quiet_console (answers (Inr PNone) (Inr PNone)) ''x'' []
     = (Inr ''unclassified'', [species_call ''x''])"
proof -
  have h1: "answers (Inl (OtherError ''timeout'')) (Inr PNone) (species_call ''x'')
             = Inl (OtherError ''timeout'')"
    by (simp add: answers_def species_call_def)
  have h2: "answers (Inr PNone) (Inr PNone) (species_call ''x'') = Inr PNone
            \<and> species_label PNone = Inl AttributeError"
    by (simp add: answers_def species_call_def species_label_def bind_exn_def)
  from classify_animal_failure
    [of "answers (Inl (OtherError ''timeout'')) (Inr PNone)" "''x''" "OtherError ''timeout''"
      quiet_console "[]"]
    classify_animal_failure
    [of "answers (Inr PNone) (Inr PNone)" "''x''" AttributeError quiet_console "[]"]
    h1 h2
  show ?thesis by (simp add: quiet_console_def)
qed

text \<open>
  The claim as it stands says that every failure of the species call ends in the label
  \<open>unclassified\<close>. A provider call that is interrupted raises an exception that
  \<^verbatim>\<open>except Exception\<close> does not catch; and on a standard output that cannot encode Korean
  the \<^verbatim>\<open>print\<close> of the \<^verbatim>\<open>except\<close> block raises in its turn. In both cases
  \<^verbatim>\<open>classify_animal\<close> raises to its caller.
\<close>

theorem classify_animal_failure_counterexample:
  "fst (classify_animal quiet_console
          (answers (Inl (BaseError ''KeyboardInterrupt'')) (Inr PNone)) ''x'' [])
     = Inl (BaseError ''KeyboardInterrupt'')
   \<and> fst (classify_animal ascii_console
          (answers (Inl (OtherError ''timeout'')) (Inr PNone)) ''x'' [])
     = Inl UnicodeEncodeError"
  by (simp add: classify_animal_eq species_of_def answers_def species_call_def bind_exn_def
      except_Exception_def py_print_def ascii_console_def)






text \<open>
  C9. For every byte buffer and every content type \<open>image/subtype\<close> (a subtype has no
  slash), the encoding step gives exactly \<open>data:image/\<close>, the subtype, \<open>;base64,\<close> and the
  base64 text of the buffer, whatever the bytes are; and this is the string that both
  handlers send with the species call.
\<close>

theorem data_url_encoding:
  assumes "CHR ''/'' \<notin> set subtype"
  shows "encode_image image_content (Some (''image/'' @ subtype)) =
           Inr (''data:image/'' @ subtype @ '';base64,'' @ b64encode image_content)
     \<and> (\<exists>more. snd (predict con run
                      \<lparr>uf_read = Inr image_content,
                       uf_content_type = Some (''image/'' @ subtype)\<rparr> calls) =
           calls @ species_call
                     (''data:image/'' @ subtype @ '';base64,'' @ b64encode image_content) # more)
     \<and> (\<exists>more. snd (batch_step con run
                      \<lparr>uf_read = Inr image_content,
                       uf_content_type = Some (''image/'' @ subtype)\<rparr> st calls) =
           calls @ species_call
                     (''data:image/'' @ subtype @ '';base64,'' @ b64encode image_content) # more)"
proof -
  have enc: "encode_image image_content (Some (''image/'' @ subtype)) =
           Inr (''data:image/'' @ subtype @ '';base64,'' @ b64encode image_content)"
    using assms by (rule encode_image_subtype)
  obtain more where
    "image_calls con run \<lparr>uf_read = Inr image_content,
                      uf_content_type = Some (''image/'' @ subtype)\<rparr> =
       species_call (''data:image/'' @ subtype @ '';base64,'' @ b64encode image_content) # more"
    using image_calls_first [of "\<lparr>uf_read = Inr image_content,
                      uf_content_type = Some (''image/'' @ subtype)\<rparr>" image_content
        "''data:image/'' @ subtype @ '';base64,'' @ b64encode image_content" con run] enc
    by auto
  then show ?thesis
    using enc by (simp add: predict_eq batch_step_eq)
qed

theorem data_url_encoding_witness:
  "CHR ''/'' \<notin> set ''png''
   \<and> encode_image [255, 216, 255] (Some ''image/png'') = Inr ''data:image/png;base64,/9j/''
   \<and> encode_image [] (Some ''image/png'') = Inr ''data:image/png;base64,''"
proof -
  have a: "CHR ''/'' \<notin> set ''png''" by simp
  have b: "b64encode [255, 216, 255] = ''/9j/''" by code_simp
  from data_url_encoding [OF a, of "[255, 216, 255]"] data_url_encoding [OF a, of "[]"] a b
  show ?thesis by simp
qed

text \<open>
  C10. A response of \<^verbatim>\<open>predict\<close> holds exactly one image outcome: either \<open>classified\<close> has
  exactly one key with a list of exactly one record and \<open>unclassified\<close> is empty, or
  \<open>classified\<close> is empty and \<open>unclassified\<close> is exactly one empty placeholder. The handler
  does give a response when every \<^verbatim>\<open>print\<close> completes and the provider and the upload
  raise instances of \<open>Exception\<close> only.
\<close>

theorem predict_single_outcome:
  "(\<forall>r. fst (predict con run file calls) = Inr r \<longrightarrow>
        (\<exists>k entry. classified r = [(k, [entry])] \<and> unclassified r = [])
        \<or> (classified r = [] \<and> unclassified r = [PDict []]))
   \<and> ((\<forall>line. con line = None) \<and> (\<forall>c e. run c = Inl e \<longrightarrow> is_exception e)
       \<and> (\<forall>e. uf_read file = Inl e \<longrightarrow> is_exception e)
      \<longrightarrow> (\<exists>r. fst (predict con run file calls) = Inr r))"
proof (intro conjI allI impI)
  fix r
  assume "fst (predict con run file calls) = Inr r"
  then obtain x where "image_result con run file = Inr x" and r: "r = single_response x"
    by (auto simp add: predict_eq split: sum.splits)
  show "(\<exists>k entry. classified r = [(k, [entry])] \<and> unclassified r = [])
        \<or> (classified r = [] \<and> unclassified r = [PDict []])"
    using r by (cases x) (auto simp add: single_response_def)
next
  assume "(\<forall>line. con line = None) \<and> (\<forall>c e. run c = Inl e \<longrightarrow> is_exception e)
       \<and> (\<forall>e. uf_read file = Inl e \<longrightarrow> is_exception e)"
  then obtain x where "image_result con run file = Inr x"
    using image_result_returns [of con run "file"] by blast
  then show "\<exists>r. fst (predict con run file calls) = Inr r"
    by (simp add: predict_eq)
qed

theorem predict_single_outcome_witness:
  "\<exists>r. fst (predict quiet_console sample_provider
             \<lparr>uf_read = Inr [], uf_content_type = Some ''image/png''\<rparr> []) = Inr r
        \<and> ((\<exists>k entry. classified r = [(k, [entry])] \<and> unclassified r = [])
           \<or> (classified r = [] \<and> unclassified r = [PDict []]))"
proof -
  have q: "\<forall>line. quiet_console line = None"
    by (simp add: quiet_console_def)
  have p: "\<forall>c e. sample_provider c = Inl e \<longrightarrow> is_exception e"
    by (simp add: sample_provider_def)
  have u: "\<forall>e. uf_read \<lparr>uf_read = Inr [], uf_content_type = Some ''image/png''\<rparr> = Inl e
               \<longrightarrow> is_exception e"
    by simp
  note t = predict_single_outcome
    [of quiet_console sample_provider
      "\<lparr>uf_read = Inr [], uf_content_type = Some ''image/png''\<rparr>" "[]"]
  from t [THEN conjunct2] q p u
  obtain r where r: "fst (predict quiet_console sample_provider
             \<lparr>uf_read = Inr [], uf_content_type = Some ''image/png''\<rparr> []) = Inr r"
    by blast
  from t [THEN conjunct1] r show ?thesis by blast
qed

end
